theory Spec2Isabelle
  imports Main "HOL-Library.Word"
begin

unbundle bit_operations_syntax

section \<open>Common values: results, decimal rendering\<close>

text \<open>
  \<open>Result<void>\<close> of init: either success or a \<open>ResultError\<close>, which carries the
  message streamed into it and the captured \<open>errno\<close> (\<open>Error()\<close> captures 0,
  \<open>ErrnoError()\<close> the current \<open>errno\<close>, whose text the library appends).
\<close>

datatype result_error = ResultError string int

type_synonym result = "result_error + unit"

definition Error :: "string \<Rightarrow> result" where
  "Error msg = Inl (ResultError msg 0)"

text \<open>
  \<open>ErrnoError() << msg\<close>: the library appends \<open>": "\<close> and \<open>strerror(errno)\<close>
  to the message (the text alone when nothing was streamed). \<open>strerror\<close> is libc's
  and is a parameter.
\<close>

definition ErrnoError :: "(int \<Rightarrow> string) \<Rightarrow> int \<Rightarrow> string \<Rightarrow> result" where
  "ErrnoError strerror e msg =
     Inl (ResultError (if msg = [] then strerror e else msg @ '': '' @ strerror e) e)"

text \<open>\<open>Error() << prefix << r.error()\<close>: the message is appended, the code is taken over.\<close>

fun Error_from :: "string \<Rightarrow> result_error \<Rightarrow> result" where
  "Error_from prefix (ResultError msg c) = Inl (ResultError (prefix @ msg) c)"

text \<open>\<open>std::to_string\<close> and \<open>operator<<\<close> on integers: the decimal digits.\<close>

definition digit_char :: "nat \<Rightarrow> char" where
  "digit_char d = ''0123456789'' ! d"

fun dec_digits :: "nat \<Rightarrow> string" where
  "dec_digits n = (if n < 10 then [digit_char n] else dec_digits (n div 10) @ [digit_char (n mod 10)])"

declare dec_digits.simps [simp del]

definition to_string :: "int \<Rightarrow> string" where
  "to_string i = (if i < 0 then CHR ''-'' # dec_digits (nat (- i)) else dec_digits (nat i))"

section \<open>Device mapper: \<open>fs_mgr_dm_ioctl.cpp\<close>\<close>

text \<open>
  The fields of \<open>struct dm_ioctl\<close> that the file touches. \<open>data_size\<close> and
  \<open>data_start\<close> are taken from the caller (\<open>sizeof\<close> of the kernel's structure),
  the name field holds at most \<open>name_len - 1\<close> characters (\<open>strlcpy\<close>).
\<close>

record dm_ioctl =
  version :: "nat list"
  data_size :: nat
  data_start :: nat
  dm_name :: string
  dev :: "64 word"

definition fs_mgr_dm_ioctl_init :: "nat \<Rightarrow> nat \<Rightarrow> nat \<Rightarrow> string \<Rightarrow> dm_ioctl" where
  "fs_mgr_dm_ioctl_init sz sizeof_dm_ioctl name_len name =
     \<lparr> version = [4, 0, 0], data_size = sz, data_start = sizeof_dm_ioctl,
       dm_name = (if name \<noteq> [] then take (name_len - 1) name else []), dev = 0 \<rparr>"

text \<open>
  \<open>int dev_num = (io->dev & 0xff) | ((io->dev >> 12) & 0xfff00)\<close>: computed on the
  64-bit field, then converted to a 32-bit \<open>int\<close>.
\<close>

definition dev_num :: "64 word \<Rightarrow> int" where
  "dev_num raw = sint (ucast ((raw AND 0xff) OR (drop_bit 12 raw AND 0xfff00)) :: 32 word)"

text \<open>
  \<open>fs_mgr_dm_get_device_name\<close>: the \<open>DM_DEV_STATUS\<close> request is the parameter
  \<open>dm_dev_status\<close> (\<open>None\<close> when the ioctl fails, else the control block as the
  kernel filled it). The result is \<open>None\<close> for \<open>false\<close>, else the string stored
  through \<open>out_dev_name\<close>.
\<close>

definition fs_mgr_dm_get_device_name ::
  "(dm_ioctl \<Rightarrow> dm_ioctl option) \<Rightarrow> nat \<Rightarrow> nat \<Rightarrow> string \<Rightarrow> string option" where
  "fs_mgr_dm_get_device_name dm_dev_status sizeof_dm_ioctl name_len name =
     (case dm_dev_status (fs_mgr_dm_ioctl_init sizeof_dm_ioctl sizeof_dm_ioctl name_len name) of
        None \<Rightarrow> None
      | Some io \<Rightarrow> Some (''/dev/block/dm-'' @ to_string (dev_num (dev io))))"

section \<open>init: \<open>builtins.cpp\<close>\<close>

subsection \<open>What a builtin does to the outside\<close>

text \<open>
  Every call a builtin makes to a collaborator outside this file is recorded, in order,
  as an event; what the collaborator answers is a parameter (the environment records
  below). A descriptor is identified by the path it was opened from.
  \<open>TriggerShutdown\<close>, \<open>property_set\<close> and \<open>QueueEventTrigger\<close> record a request and
  return: the builtins go on after each of them (\<open>reboot_into_recovery\<close> returns
  \<open>{}\<close> right after \<open>TriggerShutdown\<close>).
\<close>

datatype mount_mode = MOUNT_MODE_DEFAULT | MOUNT_MODE_EARLY | MOUNT_MODE_LATE

datatype event =
    E_property_set string string
  | E_QueueEventTrigger string
  | E_TriggerShutdown string
  | E_write_bootloader_message "string list"
  | E_FscryptInstallKeyring
  | E_LOG_ERROR string
  | E_PLOG_ERROR string
  | E_ReadDefaultFstab
  | E_fs_mgr_remount_userdata_into_checkpointing
  | E_ReadFstabFromFile string
  | E_fs_mgr_mount_all mount_mode
  | E_ParseConfig string
  | E_StartIfNotDisabled string
  | E_Restart string
  | E_open string int
  | E_ioctl_LOOP_GET_STATUS string
  | E_ioctl_LOOP_SET_FD string string
  | E_ioctl_LOOP_CLR_FD string
  | E_mount string string string "32 word" "string option"
  | E_wait_for_file string

subsection \<open>The fstab outcome state machine\<close>

text \<open>
  The \<open>FS_MGR_MNTALL_*\<close> codes are declared in \<open>fs_mgr.h\<close>; their values are a
  parameter.
\<close>

record fs_mgr_codes =
  FS_MGR_MNTALL_DEV_NEEDS_ENCRYPTION :: int
  FS_MGR_MNTALL_DEV_MIGHT_BE_ENCRYPTED :: int
  FS_MGR_MNTALL_DEV_NOT_ENCRYPTED :: int
  FS_MGR_MNTALL_DEV_NOT_ENCRYPTABLE :: int
  FS_MGR_MNTALL_DEV_NEEDS_RECOVERY :: int
  FS_MGR_MNTALL_DEV_FILE_ENCRYPTED :: int
  FS_MGR_MNTALL_DEV_IS_METADATA_ENCRYPTED :: int
  FS_MGR_MNTALL_DEV_NEEDS_METADATA_ENCRYPTION :: int

definition enumerated_codes :: "fs_mgr_codes \<Rightarrow> int list" where
  "enumerated_codes K =
     [FS_MGR_MNTALL_DEV_NEEDS_ENCRYPTION K, FS_MGR_MNTALL_DEV_MIGHT_BE_ENCRYPTED K,
      FS_MGR_MNTALL_DEV_NOT_ENCRYPTED K, FS_MGR_MNTALL_DEV_NOT_ENCRYPTABLE K,
      FS_MGR_MNTALL_DEV_NEEDS_RECOVERY K, FS_MGR_MNTALL_DEV_FILE_ENCRYPTED K,
      FS_MGR_MNTALL_DEV_IS_METADATA_ENCRYPTED K, FS_MGR_MNTALL_DEV_NEEDS_METADATA_ENCRYPTION K]"

text \<open>
  The answers of the collaborators of the state machine and of the two commands that
  run it: \<open>write_bootloader_message\<close> gives \<open>None\<close> on success and the error text
  otherwise; \<open>Timer_duration\<close> is what \<open>t.duration().count()\<close> reads.
\<close>

record fs_env =
  getpid :: int
  write_bootloader_message :: "string list \<Rightarrow> string option"
  IsGsiRunning :: bool
  FscryptInstallKeyring :: bool
  ReadDefaultFstab :: bool
  fs_mgr_remount_userdata_into_checkpointing :: int
  ReadFstabFromFile :: "string \<Rightarrow> bool"
  fs_mgr_mount_all :: "mount_mode \<Rightarrow> int"
  SelinuxGetVendorAndroidVersion :: int
  Timer_duration :: int

definition reboot_into_recovery :: "fs_env \<Rightarrow> string list \<Rightarrow> result \<times> event list" where
  "reboot_into_recovery E options =
     (case write_bootloader_message E options of
        Some err \<Rightarrow>
          (Error (''Failed to set bootloader message: '' @ err),
           [E_LOG_ERROR ''Rebooting into recovery'', E_write_bootloader_message options])
      | None \<Rightarrow>
          (Inr (),
           [E_LOG_ERROR ''Rebooting into recovery'', E_write_bootloader_message options] @
           (if getpid E = 1 then [E_TriggerShutdown ''reboot,recovery'']
            else [E_property_set ''sys.powerctl'' ''reboot,recovery''])))"

definition fde_remount_panic :: "event list" where
  "fde_remount_panic =
     [E_LOG_ERROR ''Userdata remount is not supported on FDE devices. How did you get here?'',
      E_TriggerShutdown ''reboot,requested-userdata-remount-on-fde-device'']"

text \<open>
  \<open>queue_fs_event\<close>, branch by branch in the order of the source. The statement
  \<open>Error() << ...\<close> of the \<open>code > 0\<close> branch builds a value and drops it: both
  last branches return the same error.
\<close>

definition queue_fs_event :: "fs_mgr_codes \<Rightarrow> fs_env \<Rightarrow> int \<Rightarrow> bool \<Rightarrow> result \<times> event list" where
  "queue_fs_event K E code userdata_remount =
     (if code = FS_MGR_MNTALL_DEV_NEEDS_ENCRYPTION K then
        (Inr (),
         (if userdata_remount then fde_remount_panic else []) @
         [E_QueueEventTrigger ''encrypt''])
      else if code = FS_MGR_MNTALL_DEV_MIGHT_BE_ENCRYPTED K then
        (Inr (),
         (if userdata_remount then fde_remount_panic else []) @
         [E_property_set ''ro.crypto.state'' ''encrypted'',
          E_property_set ''ro.crypto.type'' ''block'',
          E_QueueEventTrigger ''defaultcrypto''])
      else if code = FS_MGR_MNTALL_DEV_NOT_ENCRYPTED K then
        (Inr (),
         [E_property_set ''ro.crypto.state'' ''unencrypted'',
          E_QueueEventTrigger ''nonencrypted''])
      else if code = FS_MGR_MNTALL_DEV_NOT_ENCRYPTABLE K then
        (Inr (),
         [E_property_set ''ro.crypto.state'' ''unsupported'',
          E_QueueEventTrigger ''nonencrypted''])
      else if code = FS_MGR_MNTALL_DEV_NEEDS_RECOVERY K then
        (if IsGsiRunning E then (Error ''cannot wipe within GSI'', [])
         else
           (case reboot_into_recovery E [''--wipe_data'', ''--reason=fs_mgr_mount_all''] of
              (r, t) \<Rightarrow>
                (r, E_PLOG_ERROR ''fs_mgr_mount_all suggested recovery, so wiping data via recovery.'' # t)))
      else if code = FS_MGR_MNTALL_DEV_FILE_ENCRYPTED K then
        (if \<not> userdata_remount \<and> \<not> FscryptInstallKeyring E then
           (Error ''FscryptInstallKeyring() failed'', [E_FscryptInstallKeyring])
         else
           (Inr (),
            (if \<not> userdata_remount then [E_FscryptInstallKeyring] else []) @
            [E_property_set ''ro.crypto.state'' ''encrypted'',
             E_property_set ''ro.crypto.type'' ''file'',
             E_QueueEventTrigger ''nonencrypted'']))
      else if code = FS_MGR_MNTALL_DEV_IS_METADATA_ENCRYPTED K then
        (if \<not> userdata_remount \<and> \<not> FscryptInstallKeyring E then
           (Error ''FscryptInstallKeyring() failed'', [E_FscryptInstallKeyring])
         else
           (Inr (),
            (if \<not> userdata_remount then [E_FscryptInstallKeyring] else []) @
            [E_property_set ''ro.crypto.state'' ''encrypted'',
             E_property_set ''ro.crypto.type'' ''file'',
             E_QueueEventTrigger ''nonencrypted'']))
      else if code = FS_MGR_MNTALL_DEV_NEEDS_METADATA_ENCRYPTION K then
        (if \<not> userdata_remount \<and> \<not> FscryptInstallKeyring E then
           (Error ''FscryptInstallKeyring() failed'', [E_FscryptInstallKeyring])
         else
           (Inr (),
            (if \<not> userdata_remount then [E_FscryptInstallKeyring] else []) @
            [E_property_set ''ro.crypto.state'' ''encrypted'',
             E_property_set ''ro.crypto.type'' ''file'',
             E_QueueEventTrigger ''nonencrypted'']))
      else if code > 0 then (Error (''Invalid code: '' @ to_string code), [])
      else (Error (''Invalid code: '' @ to_string code), []))"

subsection \<open>The state that outlives a command\<close>

record init_state =
  initial_mount_fstab_return_code :: int
  late_import_paths :: "string list"

text \<open>The value of the static initialiser; \<open>late_import_paths\<close> is filled elsewhere.\<close>

definition boot_state :: "string list \<Rightarrow> init_state" where
  "boot_state paths = \<lparr> initial_mount_fstab_return_code = - 1, late_import_paths = paths \<rparr>"

definition import_late :: "string list \<Rightarrow> nat \<Rightarrow> nat \<Rightarrow> init_state \<Rightarrow> event list \<times> init_state" where
  "import_late args start_index end_index s =
     (if end_index \<le> start_index then
        (map E_ParseConfig (late_import_paths s), s\<lparr>late_import_paths := []\<rparr>)
      else (map (\<lambda>i. E_ParseConfig (args ! i)) [start_index ..< end_index], s))"

record mount_all_vars =
  import_rc :: bool
  queue_event :: bool
  mount_mode_var :: mount_mode
  path_arg_end :: nat
  prop_post_fix :: string

text \<open>The loop \<open>for (na = args.size() - 1; na > 1; --na)\<close> of \<open>do_mount_all\<close>.\<close>

fun mount_all_scan :: "string list \<Rightarrow> nat \<Rightarrow> mount_all_vars \<Rightarrow> mount_all_vars" where
  "mount_all_scan args 0 v = v"
| "mount_all_scan args (Suc m) v =
     (if Suc m > 1 then
        mount_all_scan args m
          (if args ! Suc m = ''--early'' then
             v\<lparr>path_arg_end := Suc m, queue_event := False,
               mount_mode_var := MOUNT_MODE_EARLY, prop_post_fix := ''early''\<rparr>
           else if args ! Suc m = ''--late'' then
             v\<lparr>path_arg_end := Suc m, import_rc := False,
               mount_mode_var := MOUNT_MODE_LATE, prop_post_fix := ''late''\<rparr>
           else v)
      else v)"

definition ANDROID_API_Q :: int where
  "ANDROID_API_Q = 29"

text \<open>
  \<open>do_mount_all\<close>; the registry calls it with the command name and at least one
  argument, so \<open>args ! 1\<close> exists.
\<close>

definition do_mount_all ::
  "fs_mgr_codes \<Rightarrow> fs_env \<Rightarrow> string list \<Rightarrow> init_state \<Rightarrow> (result \<times> event list) \<times> init_state" where
  "do_mount_all K E args s =
     (let v = mount_all_scan args (length args - 1)
                \<lparr> import_rc = True, queue_event = True, mount_mode_var = MOUNT_MODE_DEFAULT,
                  path_arg_end = length args, prop_post_fix = ''default'' \<rparr>;
          fstab_file = args ! 1;
          prop_name = ''ro.boottime.init.mount_all.'' @ prop_post_fix v
      in if \<not> ReadFstabFromFile E fstab_file then
           ((Error ''Could not read fstab'', [E_ReadFstabFromFile fstab_file]), s)
         else
           (let mount_fstab_return_code = fs_mgr_mount_all E (mount_mode_var v);
                t1 = [E_ReadFstabFromFile fstab_file, E_fs_mgr_mount_all (mount_mode_var v),
                      E_property_set prop_name (to_string (Timer_duration E))];
                (t2, s2) =
                  (if import_rc v \<and> SelinuxGetVendorAndroidVersion E \<le> ANDROID_API_Q
                   then import_late args 2 (path_arg_end v) s else ([], s))
            in if queue_event v then
                 (let s3 = s2\<lparr>initial_mount_fstab_return_code := mount_fstab_return_code\<rparr> in
                  case queue_fs_event K E mount_fstab_return_code False of
                    (Inl e, t3) \<Rightarrow> ((Error_from ''queue_fs_event() failed: '' e, t1 @ t2 @ t3), s3)
                  | (Inr u, t3) \<Rightarrow> ((Inr (), t1 @ t2 @ t3), s3))
               else ((Inr (), t1 @ t2), s2)))"

definition do_remount_userdata ::
  "fs_mgr_codes \<Rightarrow> fs_env \<Rightarrow> init_state \<Rightarrow> (result \<times> event list) \<times> init_state" where
  "do_remount_userdata K E s =
     (if initial_mount_fstab_return_code s = - 1 then
        ((Error ''Calling remount_userdata too early'', []), s)
      else if \<not> ReadDefaultFstab E then
        ((Error ''Failed to read fstab'', [E_ReadDefaultFstab]), s)
      else
        (let t1 = [E_ReadDefaultFstab, E_fs_mgr_remount_userdata_into_checkpointing] @
                  (if fs_mgr_remount_userdata_into_checkpointing E < 0
                   then [E_TriggerShutdown ''reboot,mount-userdata-failed''] else [])
         in case queue_fs_event K E (initial_mount_fstab_return_code s) True of
              (Inl e, t2) \<Rightarrow> ((Error_from ''queue_fs_event() failed: '' e, t1 @ t2), s)
            | (Inr u, t2) \<Rightarrow> ((Inr (), t1 @ t2), s)))"

subsection \<open>Reading a trace\<close>

fun property_writes :: "event list \<Rightarrow> (string \<times> string) list" where
  "property_writes [] = []"
| "property_writes (E_property_set k v # t) = (k, v) # property_writes t"
| "property_writes (_ # t) = property_writes t"

text \<open>The writes of the outcome table: those to \<open>ro.crypto.state\<close> and \<open>ro.crypto.type\<close>.\<close>

definition crypto_writes :: "event list \<Rightarrow> (string \<times> string) list" where
  "crypto_writes t =
     filter (\<lambda>(k, v). k = ''ro.crypto.state'' \<or> k = ''ro.crypto.type'') (property_writes t)"

fun queued_events :: "event list \<Rightarrow> string list" where
  "queued_events [] = []"
| "queued_events (E_QueueEventTrigger n # t) = n # queued_events t"
| "queued_events (_ # t) = queued_events t"

fun shutdown_triggers :: "event list \<Rightarrow> string list" where
  "shutdown_triggers [] = []"
| "shutdown_triggers (E_TriggerShutdown c # t) = c # shutdown_triggers t"
| "shutdown_triggers (_ # t) = shutdown_triggers t"

subsection \<open>Service classes\<close>

text \<open>
  A service as the class commands see it: its name and its class names. The service
  list, \<open>GetBoolProperty\<close> and the services' own operations belong to other files and
  are parameters; \<open>StartIfNotDisabled\<close> answers with a \<open>Result<void>\<close>.
\<close>

record service =
  service_name :: string
  classnames :: "string set"

record svc_env =
  ServiceList :: "service list"
  GetBoolProperty :: "string \<Rightarrow> bool \<Rightarrow> bool"
  StartIfNotDisabled :: "service \<Rightarrow> result"

fun error_message :: "result_error \<Rightarrow> string" where
  "error_message (ResultError msg c) = msg"

text \<open>\<open>ForEachServiceInClass\<close>: the function is recorded as the event it stands for.\<close>

fun ForEachServiceInClass :: "service list \<Rightarrow> string \<Rightarrow> (service \<Rightarrow> event) \<Rightarrow> event list" where
  "ForEachServiceInClass [] classname function = []"
| "ForEachServiceInClass (service # rest) classname function =
     (if classname \<in> classnames service then [function service] else []) @
     ForEachServiceInClass rest classname function"

text \<open>The message that \<open>do_class_start\<close> logs when a service does not start.\<close>

definition could_not_start :: "string \<Rightarrow> string \<Rightarrow> result_error \<Rightarrow> string" where
  "could_not_start name cls err =
     ''Could not start service '' @ [CHR 0x27] @ name @ [CHR 0x27] @ '' as part of class '' @
     [CHR 0x27] @ cls @ [CHR 0x27] @ '': '' @ error_message err"

text \<open>The loop of \<open>do_class_start\<close> over the service list.\<close>

fun class_start_loop :: "svc_env \<Rightarrow> string \<Rightarrow> service list \<Rightarrow> event list" where
  "class_start_loop E cls [] = []"
| "class_start_loop E cls (service # rest) =
     (if cls \<in> classnames service then
        E_StartIfNotDisabled (service_name service) #
        (case StartIfNotDisabled E service of
           Inl err \<Rightarrow> [E_LOG_ERROR (could_not_start (service_name service) cls err)]
         | Inr u \<Rightarrow> [])
      else []) @
     class_start_loop E cls rest"

text \<open>The registry calls both commands with exactly one argument, \<open>args ! 1\<close>.\<close>

definition do_class_start :: "svc_env \<Rightarrow> string list \<Rightarrow> result \<times> event list" where
  "do_class_start E args =
     (if GetBoolProperty E (''persist.init.dont_start_class.'' @ args ! 1) False then (Inr (), [])
      else (Inr (), class_start_loop E (args ! 1) (ServiceList E)))"

definition do_class_restart :: "svc_env \<Rightarrow> string list \<Rightarrow> result \<times> event list" where
  "do_class_restart E args =
     (if GetBoolProperty E (''persist.init.dont_start_class.'' @ args ! 1) False then (Inr (), [])
      else (Inr (), ForEachServiceInClass (ServiceList E) (args ! 1)
                      (\<lambda>service. E_Restart (service_name service))))"

fun start_calls :: "event list \<Rightarrow> string list" where
  "start_calls [] = []"
| "start_calls (E_StartIfNotDisabled n # t) = n # start_calls t"
| "start_calls (_ # t) = start_calls t"

fun restart_calls :: "event list \<Rightarrow> string list" where
  "restart_calls [] = []"
| "restart_calls (E_Restart n # t) = n # restart_calls t"
| "restart_calls (_ # t) = restart_calls t"

fun logged_errors :: "event list \<Rightarrow> string list" where
  "logged_errors [] = []"
| "logged_errors (E_LOG_ERROR m # t) = m # logged_errors t"
| "logged_errors (_ # t) = logged_errors t"

subsection \<open>\<open>mount\<close>\<close>

text \<open>
  The constants of Linux that \<open>do_mount\<close> uses, from \<open><sys/mount.h>\<close>,
  \<open><fcntl.h>\<close> and \<open><errno.h>\<close>.
\<close>

definition MS_RDONLY :: "32 word" where "MS_RDONLY = 1"
definition MS_NOSUID :: "32 word" where "MS_NOSUID = 2"
definition MS_NODEV :: "32 word" where "MS_NODEV = 4"
definition MS_NOEXEC :: "32 word" where "MS_NOEXEC = 8"
definition MS_REMOUNT :: "32 word" where "MS_REMOUNT = 32"
definition MS_NOATIME :: "32 word" where "MS_NOATIME = 1024"
definition MS_NODIRATIME :: "32 word" where "MS_NODIRATIME = 2048"
definition MS_BIND :: "32 word" where "MS_BIND = 4096"
definition MS_REC :: "32 word" where "MS_REC = 16384"
definition MS_UNBINDABLE :: "32 word" where "MS_UNBINDABLE = 131072"
definition MS_PRIVATE :: "32 word" where "MS_PRIVATE = 262144"
definition MS_SLAVE :: "32 word" where "MS_SLAVE = 524288"
definition MS_SHARED :: "32 word" where "MS_SHARED = 1048576"

definition O_RDONLY :: int where "O_RDONLY = 0"
definition O_RDWR :: int where "O_RDWR = 2"
definition O_CLOEXEC :: int where "O_CLOEXEC = 524288"

definition ENOENT :: int where "ENOENT = 2"
definition ENXIO :: int where "ENXIO = 6"

text \<open>The table \<open>mount_flags\<close>, without its terminating entry.\<close>

definition mount_flags :: "(string \<times> 32 word) list" where
  "mount_flags =
     [(''noatime'', MS_NOATIME), (''noexec'', MS_NOEXEC), (''nosuid'', MS_NOSUID),
      (''nodev'', MS_NODEV), (''nodiratime'', MS_NODIRATIME), (''ro'', MS_RDONLY),
      (''rw'', 0), (''remount'', MS_REMOUNT), (''bind'', MS_BIND), (''rec'', MS_REC),
      (''unbindable'', MS_UNBINDABLE), (''private'', MS_PRIVATE), (''slave'', MS_SLAVE),
      (''shared'', MS_SHARED), (''defaults'', 0)]"

text \<open>
  The inner loop of \<open>do_mount\<close>: the flag of the first entry whose name is the
  argument, \<open>None\<close> when the loop stops at the terminating entry.
\<close>

fun find_mount_flag :: "(string \<times> 32 word) list \<Rightarrow> string \<Rightarrow> 32 word option" where
  "find_mount_flag [] a = None"
| "find_mount_flag ((name, flag) # rest) a =
     (if a = name then Some flag else find_mount_flag rest a)"

record mount_vars =
  mv_options :: "string option"
  mv_flags :: "32 word"
  mv_wait :: bool

text \<open>The outer loop, \<open>for (size_t na = 4; na < args.size(); na++)\<close>.\<close>

function mount_args_loop :: "string list \<Rightarrow> nat \<Rightarrow> mount_vars \<Rightarrow> mount_vars" where
  "mount_args_loop args na v =
     (if na < length args then
        mount_args_loop args (Suc na)
          (case find_mount_flag mount_flags (args ! na) of
             Some flag \<Rightarrow> v\<lparr>mv_flags := mv_flags v OR flag\<rparr>
           | None \<Rightarrow>
               if args ! na = ''wait'' then v\<lparr>mv_wait := True\<rparr>
               else if na + 1 = length args then v\<lparr>mv_options := Some (args ! na)\<rparr>
               else v)
      else v)"
  by pat_completeness auto
termination
  by (relation "measure (\<lambda>(args, na, v). length args - na)") auto

declare mount_args_loop.simps [simp del]

definition mount_parse :: "string list \<Rightarrow> mount_vars" where
  "mount_parse args =
     mount_args_loop args 4 \<lparr> mv_options = None, mv_flags = 0, mv_wait = False \<rparr>"

text \<open>
  What the kernel and libc answer. A system call gives \<open>Ok\<close> or \<open>Fail errno\<close>;
  \<open>sys_open\<close> stands for \<open>TEMP_FAILURE_RETRY(open(...))\<close> as a whole, the ioctls on a
  loop device are asked by the path of the device. \<open>log_DEBUG\<close> is the value of
  \<open>android::base::DEBUG\<close>.
\<close>

datatype 'a sys = Ok 'a | Fail int

record mount_env =
  sys_open :: "string \<Rightarrow> int \<Rightarrow> unit sys"
  ioctl_LOOP_GET_STATUS :: "string \<Rightarrow> unit sys"
  ioctl_LOOP_SET_FD :: "string \<Rightarrow> string \<Rightarrow> unit sys"
  ioctl_LOOP_CLR_FD :: "string \<Rightarrow> unit sys"
  sys_mount :: "string \<Rightarrow> string \<Rightarrow> string \<Rightarrow> 32 word \<Rightarrow> string option \<Rightarrow> unit sys"
  strerror :: "int \<Rightarrow> string"
  GetMinimumLogSeverity :: int
  log_DEBUG :: int

text \<open>\<open>ErrorIgnoreEnoent(errno) << msg\<close>, converted to the result.\<close>

definition ErrnoErrorIgnoreEnoent :: "mount_env \<Rightarrow> int \<Rightarrow> string \<Rightarrow> result" where
  "ErrnoErrorIgnoreEnoent M e msg =
     (if e = ENOENT \<and> GetMinimumLogSeverity M > log_DEBUG M then Inr ()
      else ErrnoError (strerror M) e msg)"

definition loop_device :: "nat \<Rightarrow> string" where
  "loop_device n = ''/dev/block/loop'' @ dec_digits n"

definition loop_mode :: "32 word \<Rightarrow> int" where
  "loop_mode flags = (if flags AND MS_RDONLY \<noteq> 0 then O_RDONLY else O_RDWR)"

text \<open>
  The scan \<open>for (size_t n = 0;; n++)\<close> has no bound of its own: the first argument
  bounds the number of devices tried, and the result is \<open>None\<close> when it is used up;
  the events up to there are still reported. After a failed mount the \<open>errno\<close> that
  \<open>ErrnoError\<close> captures is the one \<open>LOOP_CLR_FD\<close> left, if that failed too.
\<close>

fun loop_scan ::
  "mount_env \<Rightarrow> nat \<Rightarrow> nat \<Rightarrow> int \<Rightarrow> string \<Rightarrow> string \<Rightarrow> string \<Rightarrow> 32 word \<Rightarrow> string option
     \<Rightarrow> result option \<times> event list" where
  "loop_scan M 0 n mode backing target system flags opts = (None, [])"
| "loop_scan M (Suc fuel) n mode backing target system flags opts =
     (let tmp = loop_device n in
      case sys_open M tmp (mode OR O_CLOEXEC) of
        Fail e \<Rightarrow>
          (Some (ErrnoError (strerror M) e
                   (''open('' @ tmp @ '', '' @ to_string mode @ '') failed'')),
           [E_open tmp (mode OR O_CLOEXEC)])
      | Ok u \<Rightarrow>
          if ioctl_LOOP_GET_STATUS M tmp = Fail ENXIO then
            (case ioctl_LOOP_SET_FD M tmp backing of
               Ok u' \<Rightarrow>
                 (case sys_mount M tmp target system flags opts of
                    Fail e \<Rightarrow>
                      (Some (ErrnoError (strerror M)
                               (case ioctl_LOOP_CLR_FD M tmp of Fail e' \<Rightarrow> e' | Ok u'' \<Rightarrow> e)
                               ''mount() failed''),
                       [E_open tmp (mode OR O_CLOEXEC), E_ioctl_LOOP_GET_STATUS tmp,
                        E_ioctl_LOOP_SET_FD tmp backing, E_mount tmp target system flags opts,
                        E_ioctl_LOOP_CLR_FD tmp])
                  | Ok u'' \<Rightarrow>
                      (Some (Inr ()),
                       [E_open tmp (mode OR O_CLOEXEC), E_ioctl_LOOP_GET_STATUS tmp,
                        E_ioctl_LOOP_SET_FD tmp backing, E_mount tmp target system flags opts]))
             | Fail e \<Rightarrow>
                 (case loop_scan M fuel (Suc n) mode backing target system flags opts of
                    (r, t) \<Rightarrow>
                      (r, [E_open tmp (mode OR O_CLOEXEC), E_ioctl_LOOP_GET_STATUS tmp,
                           E_ioctl_LOOP_SET_FD tmp backing] @ t)))
          else
            (case loop_scan M fuel (Suc n) mode backing target system flags opts of
               (r, t) \<Rightarrow>
                 (r, [E_open tmp (mode OR O_CLOEXEC), E_ioctl_LOOP_GET_STATUS tmp] @ t)))"

text \<open>
  \<open>do_mount\<close>; the registry calls it with the command name and at least three
  arguments. The second argument bounds the loop device scan.
\<close>

definition do_mount :: "mount_env \<Rightarrow> nat \<Rightarrow> string list \<Rightarrow> result option \<times> event list" where
  "do_mount M fuel args =
     (let v = mount_parse args;
          system = args ! 1;
          source = args ! 2;
          target = args ! 3
      in if take 5 source = ''loop@'' then
           (let mode = loop_mode (mv_flags v) in
            case sys_open M (drop 5 source) (mode OR O_CLOEXEC) of
              Fail e \<Rightarrow>
                (Some (ErrnoError (strerror M) e
                         (''open('' @ drop 5 source @ '', '' @ to_string mode @ '') failed'')),
                 [E_open (drop 5 source) (mode OR O_CLOEXEC)])
            | Ok u \<Rightarrow>
                (case loop_scan M fuel 0 mode (drop 5 source) target system (mv_flags v)
                        (mv_options v) of
                   (r, t) \<Rightarrow> (r, E_open (drop 5 source) (mode OR O_CLOEXEC) # t)))
         else
           (let t1 = (if mv_wait v then [E_wait_for_file source] else []) in
            case sys_mount M source target system (mv_flags v) (mv_options v) of
              Fail e \<Rightarrow>
                (Some (ErrnoErrorIgnoreEnoent M e ''mount() failed''),
                 t1 @ [E_mount source target system (mv_flags v) (mv_options v)])
            | Ok u \<Rightarrow>
                (Some (Inr ()),
                 t1 @ [E_mount source target system (mv_flags v) (mv_options v)])))"

text \<open>The flags of the arguments that the table matches, combined by bitwise OR.\<close>

fun or_of_matched_flags :: "string list \<Rightarrow> 32 word" where
  "or_of_matched_flags [] = 0"
| "or_of_matched_flags (a # rest) =
     (case find_mount_flag mount_flags a of Some flag \<Rightarrow> flag | None \<Rightarrow> 0) OR
     or_of_matched_flags rest"

section \<open>Concrete environments\<close>

text \<open>
  The values that AOSP's \<open>fs_mgr.h\<close> gives the codes, for evaluating the state
  machine on concrete inputs.
\<close>

definition aosp_codes :: fs_mgr_codes where
  "aosp_codes =
     \<lparr> FS_MGR_MNTALL_DEV_NEEDS_ENCRYPTION = 3, FS_MGR_MNTALL_DEV_MIGHT_BE_ENCRYPTED = 2,
       FS_MGR_MNTALL_DEV_NOT_ENCRYPTED = 1, FS_MGR_MNTALL_DEV_NOT_ENCRYPTABLE = 0,
       FS_MGR_MNTALL_DEV_NEEDS_RECOVERY = 4, FS_MGR_MNTALL_DEV_FILE_ENCRYPTED = 5,
       FS_MGR_MNTALL_DEV_IS_METADATA_ENCRYPTED = 7,
       FS_MGR_MNTALL_DEV_NEEDS_METADATA_ENCRYPTION = 6 \<rparr>"

text \<open>
  A boot in which every collaborator of the state machine succeeds, and one in which
  the keyring cannot be installed and the remount of userdata fails.
\<close>

definition env_ok :: fs_env where
  "env_ok =
     \<lparr> getpid = 1, write_bootloader_message = (\<lambda>_. None), IsGsiRunning = False,
       FscryptInstallKeyring = True, ReadDefaultFstab = True,
       fs_mgr_remount_userdata_into_checkpointing = 0, ReadFstabFromFile = (\<lambda>_. True),
       fs_mgr_mount_all = (\<lambda>_. 5), SelinuxGetVendorAndroidVersion = 30, Timer_duration = 12 \<rparr>"

definition env_failing :: fs_env where
  "env_failing =
     \<lparr> getpid = 1, write_bootloader_message = (\<lambda>_. None), IsGsiRunning = False,
       FscryptInstallKeyring = False, ReadDefaultFstab = True,
       fs_mgr_remount_userdata_into_checkpointing = - 1, ReadFstabFromFile = (\<lambda>_. True),
       fs_mgr_mount_all = (\<lambda>_. 3), SelinuxGetVendorAndroidVersion = 30, Timer_duration = 12 \<rparr>"

text \<open>
  Three services of the class \<open>main\<close> and one of another class; the second one of
  \<open>main\<close> fails to start. Which properties are set is the argument.
\<close>

definition three_services :: "(string \<Rightarrow> bool) \<Rightarrow> svc_env" where
  "three_services props =
     \<lparr> ServiceList =
         [\<lparr> service_name = ''a'', classnames = {''main''} \<rparr>,
          \<lparr> service_name = ''b'', classnames = {''main'', ''late''} \<rparr>,
          \<lparr> service_name = ''x'', classnames = {''core''} \<rparr>,
          \<lparr> service_name = ''c'', classnames = {''main''} \<rparr>],
       GetBoolProperty = (\<lambda>key dflt. props key),
       StartIfNotDisabled =
         (\<lambda>s. if service_name s = ''b'' then Error ''fork failed'' else Inr ()) \<rparr>"

text \<open>
  A kernel on which every open succeeds: which loop devices are bound already, on
  which ones \<open>LOOP_SET_FD\<close> fails (with \<open>EBUSY\<close>), what \<open>mount\<close> answers and the
  minimum log severity are the arguments. \<open>DEBUG\<close> is 1 and \<open>INFO\<close> is 2 in
  \<open>android::base::LogSeverity\<close>.
\<close>

definition test_kernel :: "string set \<Rightarrow> string set \<Rightarrow> unit sys \<Rightarrow> int \<Rightarrow> mount_env" where
  "test_kernel bound unbindable mount_result severity =
     \<lparr> sys_open = (\<lambda>path fl. Ok ()),
       ioctl_LOOP_GET_STATUS = (\<lambda>path. if path \<in> bound then Ok () else Fail ENXIO),
       ioctl_LOOP_SET_FD = (\<lambda>path backing. if path \<in> unbindable then Fail 16 else Ok ()),
       ioctl_LOOP_CLR_FD = (\<lambda>path. Ok ()),
       sys_mount = (\<lambda>source target system flags opts. mount_result),
       strerror = (\<lambda>e. if e = ENOENT then ''No such file or directory'' else ''error''),
       GetMinimumLogSeverity = severity,
       log_DEBUG = 1 \<rparr>"

section \<open>Device mapper: the decoded device number\<close>

lemma dev_num_uint:
  "dev_num raw = uint ((raw AND 0xff) OR (drop_bit 12 raw AND 0xfff00))"
proof -
  define e where "e = (raw AND 0xff) OR (drop_bit 12 raw AND 0xfff00)"
  have m: "e AND 0xfffff = e"
    unfolding e_def by (simp add: bit.conj_disj_distrib2 and.assoc)
  have "e \<le> 0xfffff"
    using word_and_le1 [of e "0xfffff"] m by simp
  then have b: "uint e \<le> 0xfffff"
    by (simp add: word_le_def)
  have "uint e < 2 ^ 31"
    using b by simp
  moreover have "- (2 ^ 31) \<le> uint e"
    by (rule order_trans [of _ 0]) simp_all
  ultimately have "sint (ucast e :: 32 word) = uint e"
    by (simp add: signed_take_bit_int_eq_self_iff sint_uint unsigned_ucast_eq
        take_bit_int_eq_self)
  then show ?thesis
    by (simp add: dev_num_def e_def)
qed

lemma dec_digits_52: "dec_digits 52 = ''52''"
  by (simp add: dec_digits.simps digit_char_def)

text \<open>
  C9. Whatever the status query answers, a failed query gives \<open>false\<close> and a
  successful one the name \<open>/dev/block/dm-\<close> followed by the decimal digits of
  \<open>(raw & 0xff) | ((raw >> 12) & 0xfff00)\<close>, \<open>raw\<close> being the device field the
  kernel returned (the conversion to \<open>int\<close> loses nothing). For the raw value
  \<open>0x1234\<close> the number is 52 and the name is \<open>/dev/block/dm-52\<close>.
\<close>

theorem get_device_name_decodes:
  "fs_mgr_dm_get_device_name status sz len name =
     map_option
       (\<lambda>io. ''/dev/block/dm-'' @
          dec_digits (unat ((dev io AND 0xff) OR (drop_bit 12 (dev io) AND 0xfff00))))
       (status (fs_mgr_dm_ioctl_init sz sz len name))
   \<and> dev_num 0x1234 = 52
   \<and> fs_mgr_dm_get_device_name (\<lambda>io. Some (io\<lparr>dev := 0x1234\<rparr>)) sz len name =
       Some ''/dev/block/dm-52''"
proof (intro conjI)
  show "fs_mgr_dm_get_device_name status sz len name =
     map_option
       (\<lambda>io. ''/dev/block/dm-'' @
          dec_digits (unat ((dev io AND 0xff) OR (drop_bit 12 (dev io) AND 0xfff00))))
       (status (fs_mgr_dm_ioctl_init sz sz len name))"
    by (simp add: fs_mgr_dm_get_device_name_def to_string_def dev_num_uint split: option.split)
  show d: "dev_num 0x1234 = 52"
    by (simp add: dev_num_def)
  show "fs_mgr_dm_get_device_name (\<lambda>io. Some (io\<lparr>dev := 0x1234\<rparr>)) sz len name =
       Some ''/dev/block/dm-52''"
    by (simp add: fs_mgr_dm_get_device_name_def to_string_def d dec_digits_52)
qed

section \<open>The outcome table of \<open>queue_fs_event\<close>\<close>

lemma aosp_codes_distinct: "distinct (enumerated_codes aosp_codes)"
  by (simp add: enumerated_codes_def aosp_codes_def)

lemma codes_rev: "distinct (enumerated_codes K) \<Longrightarrow> distinct (rev (enumerated_codes K))"
  by simp

lemma to_string_minus_1: "to_string (- 1) = ''-1''"
  by (simp add: to_string_def dec_digits.simps digit_char_def)

lemma to_string_42: "to_string 42 = ''42''"
  by (simp add: to_string_def dec_digits.simps digit_char_def)

text \<open>One lemma for each row; a row is reached when the codes before it differ from it.\<close>

lemma qfe_needs_encryption:
  "queue_fs_event K E (FS_MGR_MNTALL_DEV_NEEDS_ENCRYPTION K) r =
     (Inr (), (if r then fde_remount_panic else []) @ [E_QueueEventTrigger ''encrypt''])"
  by (simp add: queue_fs_event_def)

lemma qfe_might_be_encrypted:
  assumes "distinct (enumerated_codes K)"
  shows "queue_fs_event K E (FS_MGR_MNTALL_DEV_MIGHT_BE_ENCRYPTED K) r =
     (Inr (), (if r then fde_remount_panic else []) @
        [E_property_set ''ro.crypto.state'' ''encrypted'',
         E_property_set ''ro.crypto.type'' ''block'',
         E_QueueEventTrigger ''defaultcrypto''])"
  using codes_rev [OF assms] by (simp add: queue_fs_event_def enumerated_codes_def)

lemma qfe_not_encrypted:
  assumes "distinct (enumerated_codes K)"
  shows "queue_fs_event K E (FS_MGR_MNTALL_DEV_NOT_ENCRYPTED K) r =
     (Inr (), [E_property_set ''ro.crypto.state'' ''unencrypted'',
               E_QueueEventTrigger ''nonencrypted''])"
  using codes_rev [OF assms] by (simp add: queue_fs_event_def enumerated_codes_def)

lemma qfe_not_encryptable:
  assumes "distinct (enumerated_codes K)"
  shows "queue_fs_event K E (FS_MGR_MNTALL_DEV_NOT_ENCRYPTABLE K) r =
     (Inr (), [E_property_set ''ro.crypto.state'' ''unsupported'',
               E_QueueEventTrigger ''nonencrypted''])"
  using codes_rev [OF assms] by (simp add: queue_fs_event_def enumerated_codes_def)

lemma qfe_needs_recovery:
  assumes "distinct (enumerated_codes K)"
  shows "queue_fs_event K E (FS_MGR_MNTALL_DEV_NEEDS_RECOVERY K) r =
     (if IsGsiRunning E then (Error ''cannot wipe within GSI'', [])
      else
        (case write_bootloader_message E [''--wipe_data'', ''--reason=fs_mgr_mount_all''] of
           Some err \<Rightarrow>
             (Error (''Failed to set bootloader message: '' @ err),
              [E_PLOG_ERROR ''fs_mgr_mount_all suggested recovery, so wiping data via recovery.'',
               E_LOG_ERROR ''Rebooting into recovery'',
               E_write_bootloader_message [''--wipe_data'', ''--reason=fs_mgr_mount_all'']])
         | None \<Rightarrow>
             (Inr (),
              [E_PLOG_ERROR ''fs_mgr_mount_all suggested recovery, so wiping data via recovery.'',
               E_LOG_ERROR ''Rebooting into recovery'',
               E_write_bootloader_message [''--wipe_data'', ''--reason=fs_mgr_mount_all''],
               if getpid E = 1 then E_TriggerShutdown ''reboot,recovery''
               else E_property_set ''sys.powerctl'' ''reboot,recovery''])))"
  using codes_rev [OF assms]
  by (simp add: queue_fs_event_def enumerated_codes_def reboot_into_recovery_def
      split: option.split)

lemma qfe_needs_recovery_table:
  assumes "distinct (enumerated_codes K)"
  shows "crypto_writes (snd (queue_fs_event K E (FS_MGR_MNTALL_DEV_NEEDS_RECOVERY K) r)) = []"
    and "queued_events (snd (queue_fs_event K E (FS_MGR_MNTALL_DEV_NEEDS_RECOVERY K) r)) = []"
  by (simp_all add: qfe_needs_recovery [OF assms] crypto_writes_def split: option.split)

lemma qfe_file_like:
  assumes "distinct (enumerated_codes K)"
    and "code = FS_MGR_MNTALL_DEV_FILE_ENCRYPTED K \<or>
         code = FS_MGR_MNTALL_DEV_IS_METADATA_ENCRYPTED K \<or>
         code = FS_MGR_MNTALL_DEV_NEEDS_METADATA_ENCRYPTION K"
  shows "queue_fs_event K E code r =
     (if r then
        (Inr (), [E_property_set ''ro.crypto.state'' ''encrypted'',
                  E_property_set ''ro.crypto.type'' ''file'',
                  E_QueueEventTrigger ''nonencrypted''])
      else if FscryptInstallKeyring E then
        (Inr (), [E_FscryptInstallKeyring,
                  E_property_set ''ro.crypto.state'' ''encrypted'',
                  E_property_set ''ro.crypto.type'' ''file'',
                  E_QueueEventTrigger ''nonencrypted''])
      else (Error ''FscryptInstallKeyring() failed'', [E_FscryptInstallKeyring]))"
proof -
  note rv = codes_rev [OF assms(1)]
  consider "code = FS_MGR_MNTALL_DEV_FILE_ENCRYPTED K"
    | "code = FS_MGR_MNTALL_DEV_IS_METADATA_ENCRYPTED K"
    | "code = FS_MGR_MNTALL_DEV_NEEDS_METADATA_ENCRYPTION K"
    using assms(2) by blast
  then show ?thesis
  proof cases
    case 1
    with rv show ?thesis by (simp add: queue_fs_event_def enumerated_codes_def)
  next
    case 2
    with rv show ?thesis by (simp add: queue_fs_event_def enumerated_codes_def)
  next
    case 3
    with rv show ?thesis by (simp add: queue_fs_event_def enumerated_codes_def)
  qed
qed

lemma qfe_invalid:
  assumes "code \<notin> set (enumerated_codes K)"
  shows "queue_fs_event K E code r = (Error (''Invalid code: '' @ to_string code), [])"
  using assms by (simp add: queue_fs_event_def enumerated_codes_def)

text \<open>
  C1. With the eight codes that \<open>queue_fs_event\<close> compares against pairwise different,
  each of them gives the writes and the event of its row of the outcome table, in this
  order and nothing else: NeedsBlockEncryption queues \<open>encrypt\<close>; MightBeBlockEncrypted
  writes state=encrypted, type=block and queues \<open>defaultcrypto\<close> (both after the
  shutdown request when this is a userdata remount); NotEncrypted writes
  state=unencrypted, NotEncryptable state=unsupported, and both queue \<open>nonencrypted\<close>;
  the three file-encryption codes write state=encrypted, type=file and queue
  \<open>nonencrypted\<close>, or fail on the keyring; NeedsRecoveryWipe writes neither crypto
  property and queues no event: it fails within GSI and otherwise writes the bootloader
  message and requests the shutdown. Every other integer, negative or positive, gives
  the error \<open>Invalid code: <code>\<close> with no write and no event. There is no branch
  without a result.
\<close>

theorem queue_fs_event_table:
  assumes "distinct (enumerated_codes K)"
  shows
    "queue_fs_event K E (FS_MGR_MNTALL_DEV_NEEDS_ENCRYPTION K) r =
       (Inr (), (if r then fde_remount_panic else []) @ [E_QueueEventTrigger ''encrypt''])
     \<and> queue_fs_event K E (FS_MGR_MNTALL_DEV_MIGHT_BE_ENCRYPTED K) r =
       (Inr (), (if r then fde_remount_panic else []) @
          [E_property_set ''ro.crypto.state'' ''encrypted'',
           E_property_set ''ro.crypto.type'' ''block'',
           E_QueueEventTrigger ''defaultcrypto''])
     \<and> queue_fs_event K E (FS_MGR_MNTALL_DEV_NOT_ENCRYPTED K) r =
       (Inr (), [E_property_set ''ro.crypto.state'' ''unencrypted'',
                 E_QueueEventTrigger ''nonencrypted''])
     \<and> queue_fs_event K E (FS_MGR_MNTALL_DEV_NOT_ENCRYPTABLE K) r =
       (Inr (), [E_property_set ''ro.crypto.state'' ''unsupported'',
                 E_QueueEventTrigger ''nonencrypted''])
     \<and> (\<forall>code \<in> {FS_MGR_MNTALL_DEV_FILE_ENCRYPTED K, FS_MGR_MNTALL_DEV_IS_METADATA_ENCRYPTED K,
                  FS_MGR_MNTALL_DEV_NEEDS_METADATA_ENCRYPTION K}.
          queue_fs_event K E code r =
            (if \<not> r \<and> \<not> FscryptInstallKeyring E then
               (Error ''FscryptInstallKeyring() failed'', [E_FscryptInstallKeyring])
             else
               (Inr (), (if r then [] else [E_FscryptInstallKeyring]) @
                  [E_property_set ''ro.crypto.state'' ''encrypted'',
                   E_property_set ''ro.crypto.type'' ''file'',
                   E_QueueEventTrigger ''nonencrypted''])))
     \<and> queue_fs_event K E (FS_MGR_MNTALL_DEV_NEEDS_RECOVERY K) r =
       (if IsGsiRunning E then (Error ''cannot wipe within GSI'', [])
        else
          (case write_bootloader_message E [''--wipe_data'', ''--reason=fs_mgr_mount_all''] of
             Some err \<Rightarrow>
               (Error (''Failed to set bootloader message: '' @ err),
                [E_PLOG_ERROR ''fs_mgr_mount_all suggested recovery, so wiping data via recovery.'',
                 E_LOG_ERROR ''Rebooting into recovery'',
                 E_write_bootloader_message [''--wipe_data'', ''--reason=fs_mgr_mount_all'']])
           | None \<Rightarrow>
               (Inr (),
                [E_PLOG_ERROR ''fs_mgr_mount_all suggested recovery, so wiping data via recovery.'',
                 E_LOG_ERROR ''Rebooting into recovery'',
                 E_write_bootloader_message [''--wipe_data'', ''--reason=fs_mgr_mount_all''],
                 if getpid E = 1 then E_TriggerShutdown ''reboot,recovery''
                 else E_property_set ''sys.powerctl'' ''reboot,recovery''])))
     \<and> crypto_writes (snd (queue_fs_event K E (FS_MGR_MNTALL_DEV_NEEDS_RECOVERY K) r)) = []
     \<and> queued_events (snd (queue_fs_event K E (FS_MGR_MNTALL_DEV_NEEDS_RECOVERY K) r)) = []
     \<and> (\<forall>code. code \<notin> set (enumerated_codes K) \<longrightarrow>
          queue_fs_event K E code r = (Error (''Invalid code: '' @ to_string code), []))"
proof -
  have file_like:
    "\<forall>code \<in> {FS_MGR_MNTALL_DEV_FILE_ENCRYPTED K, FS_MGR_MNTALL_DEV_IS_METADATA_ENCRYPTED K,
                FS_MGR_MNTALL_DEV_NEEDS_METADATA_ENCRYPTION K}.
       queue_fs_event K E code r =
         (if \<not> r \<and> \<not> FscryptInstallKeyring E then
            (Error ''FscryptInstallKeyring() failed'', [E_FscryptInstallKeyring])
          else
            (Inr (), (if r then [] else [E_FscryptInstallKeyring]) @
               [E_property_set ''ro.crypto.state'' ''encrypted'',
                E_property_set ''ro.crypto.type'' ''file'',
                E_QueueEventTrigger ''nonencrypted'']))"
  proof
    fix code
    assume "code \<in> {FS_MGR_MNTALL_DEV_FILE_ENCRYPTED K, FS_MGR_MNTALL_DEV_IS_METADATA_ENCRYPTED K,
                     FS_MGR_MNTALL_DEV_NEEDS_METADATA_ENCRYPTION K}"
    then have "code = FS_MGR_MNTALL_DEV_FILE_ENCRYPTED K \<or>
               code = FS_MGR_MNTALL_DEV_IS_METADATA_ENCRYPTED K \<or>
               code = FS_MGR_MNTALL_DEV_NEEDS_METADATA_ENCRYPTION K"
      by simp
    from qfe_file_like [OF assms this, of E r]
    show "queue_fs_event K E code r =
         (if \<not> r \<and> \<not> FscryptInstallKeyring E then
            (Error ''FscryptInstallKeyring() failed'', [E_FscryptInstallKeyring])
          else
            (Inr (), (if r then [] else [E_FscryptInstallKeyring]) @
               [E_property_set ''ro.crypto.state'' ''encrypted'',
                E_property_set ''ro.crypto.type'' ''file'',
                E_QueueEventTrigger ''nonencrypted'']))"
      by simp
  qed
  show ?thesis
    using file_like qfe_might_be_encrypted [OF assms, of E r] qfe_not_encrypted [OF assms, of E r]
      qfe_not_encryptable [OF assms, of E r] qfe_needs_recovery [OF assms, of E r]
      qfe_needs_recovery_table [OF assms, of E r] qfe_needs_encryption [of K E r]
      qfe_invalid [of _ K E r]
    by blast
qed

theorem queue_fs_event_table_witness:
  "distinct (enumerated_codes aosp_codes)
   \<and> queue_fs_event aosp_codes env_ok 1 False =
       (Inr (), [E_property_set ''ro.crypto.state'' ''unencrypted'',
                 E_QueueEventTrigger ''nonencrypted''])
   \<and> queue_fs_event aosp_codes env_ok 2 False =
       (Inr (), [E_property_set ''ro.crypto.state'' ''encrypted'',
                 E_property_set ''ro.crypto.type'' ''block'',
                 E_QueueEventTrigger ''defaultcrypto''])
   \<and> queue_fs_event aosp_codes env_ok 6 False =
       (Inr (), [E_FscryptInstallKeyring,
                 E_property_set ''ro.crypto.state'' ''encrypted'',
                 E_property_set ''ro.crypto.type'' ''file'',
                 E_QueueEventTrigger ''nonencrypted''])
   \<and> queue_fs_event aosp_codes env_ok (- 1) False = (Error ''Invalid code: -1'', [])
   \<and> queue_fs_event aosp_codes env_ok 42 True = (Error ''Invalid code: 42'', [])"
proof -
  note t = queue_fs_event_table [OF aosp_codes_distinct, of env_ok]
  have c: "FS_MGR_MNTALL_DEV_NOT_ENCRYPTED aosp_codes = 1"
    "FS_MGR_MNTALL_DEV_MIGHT_BE_ENCRYPTED aosp_codes = 2"
    "FS_MGR_MNTALL_DEV_NEEDS_METADATA_ENCRYPTION aosp_codes = 6"
    "FS_MGR_MNTALL_DEV_FILE_ENCRYPTED aosp_codes = 5"
    "FS_MGR_MNTALL_DEV_IS_METADATA_ENCRYPTED aosp_codes = 7"
    "FS_MGR_MNTALL_DEV_NEEDS_ENCRYPTION aosp_codes = 3"
    "FS_MGR_MNTALL_DEV_NEEDS_RECOVERY aosp_codes = 4"
    "FS_MGR_MNTALL_DEV_NOT_ENCRYPTABLE aosp_codes = 0"
    by (simp_all add: aosp_codes_def)
  have k: "FscryptInstallKeyring env_ok"
    by (simp add: env_ok_def)
  have out: "- 1 \<notin> set (enumerated_codes aosp_codes)" "42 \<notin> set (enumerated_codes aosp_codes)"
    by (simp_all add: enumerated_codes_def c)
  have "queue_fs_event aosp_codes env_ok 1 False =
       (Inr (), [E_property_set ''ro.crypto.state'' ''unencrypted'',
                 E_QueueEventTrigger ''nonencrypted''])"
    using t [of False] by (simp add: c)
  moreover have "queue_fs_event aosp_codes env_ok 2 False =
       (Inr (), [E_property_set ''ro.crypto.state'' ''encrypted'',
                 E_property_set ''ro.crypto.type'' ''block'',
                 E_QueueEventTrigger ''defaultcrypto''])"
    using t [of False] by (simp add: c)
  moreover have "queue_fs_event aosp_codes env_ok 6 False =
       (Inr (), [E_FscryptInstallKeyring,
                 E_property_set ''ro.crypto.state'' ''encrypted'',
                 E_property_set ''ro.crypto.type'' ''file'',
                 E_QueueEventTrigger ''nonencrypted''])"
    using t [of False] by (simp add: c k)
  moreover have "queue_fs_event aosp_codes env_ok (- 1) False = (Error ''Invalid code: -1'', [])"
    using t [of False] out(1) by (simp add: to_string_minus_1)
  moreover have "queue_fs_event aosp_codes env_ok 42 True = (Error ''Invalid code: 42'', [])"
    using t [of True] out(2) by (simp add: to_string_42)
  ultimately show ?thesis
    using aosp_codes_distinct by blast
qed

text \<open>
  C5. For FileEncrypted, MetadataEncrypted and NeedsMetadataEncryption: outside a
  userdata remount the keyring installation is the first thing done, and when it fails
  the result is the error \<open>FscryptInstallKeyring() failed\<close> with no property written
  and no event queued; when it succeeds the two writes and the event follow it. On a
  userdata remount the keyring is not installed and the writes and the event are all
  that happens.
\<close>

theorem file_encrypted_installs_keyring_first:
  assumes "distinct (enumerated_codes K)"
    and "code \<in> {FS_MGR_MNTALL_DEV_FILE_ENCRYPTED K, FS_MGR_MNTALL_DEV_IS_METADATA_ENCRYPTED K,
                  FS_MGR_MNTALL_DEV_NEEDS_METADATA_ENCRYPTION K}"
  shows "queue_fs_event K E code userdata_remount =
     (if userdata_remount then
        (Inr (), [E_property_set ''ro.crypto.state'' ''encrypted'',
                  E_property_set ''ro.crypto.type'' ''file'',
                  E_QueueEventTrigger ''nonencrypted''])
      else if FscryptInstallKeyring E then
        (Inr (), [E_FscryptInstallKeyring,
                  E_property_set ''ro.crypto.state'' ''encrypted'',
                  E_property_set ''ro.crypto.type'' ''file'',
                  E_QueueEventTrigger ''nonencrypted''])
      else (Error ''FscryptInstallKeyring() failed'', [E_FscryptInstallKeyring]))"
proof -
  from assms(2) have "code = FS_MGR_MNTALL_DEV_FILE_ENCRYPTED K \<or>
      code = FS_MGR_MNTALL_DEV_IS_METADATA_ENCRYPTED K \<or>
      code = FS_MGR_MNTALL_DEV_NEEDS_METADATA_ENCRYPTION K"
    by simp
  from qfe_file_like [OF assms(1) this] show ?thesis .
qed

theorem file_encrypted_installs_keyring_first_witness:
  "distinct (enumerated_codes aosp_codes)
   \<and> queue_fs_event aosp_codes env_failing 5 False =
       (Error ''FscryptInstallKeyring() failed'', [E_FscryptInstallKeyring])
   \<and> queue_fs_event aosp_codes env_ok 7 False =
       (Inr (), [E_FscryptInstallKeyring,
                 E_property_set ''ro.crypto.state'' ''encrypted'',
                 E_property_set ''ro.crypto.type'' ''file'',
                 E_QueueEventTrigger ''nonencrypted''])
   \<and> queue_fs_event aosp_codes env_failing 6 True =
       (Inr (), [E_property_set ''ro.crypto.state'' ''encrypted'',
                 E_property_set ''ro.crypto.type'' ''file'',
                 E_QueueEventTrigger ''nonencrypted''])"
proof -
  have m: "5 \<in> {FS_MGR_MNTALL_DEV_FILE_ENCRYPTED aosp_codes,
                 FS_MGR_MNTALL_DEV_IS_METADATA_ENCRYPTED aosp_codes,
                 FS_MGR_MNTALL_DEV_NEEDS_METADATA_ENCRYPTION aosp_codes}"
    "7 \<in> {FS_MGR_MNTALL_DEV_FILE_ENCRYPTED aosp_codes,
                 FS_MGR_MNTALL_DEV_IS_METADATA_ENCRYPTED aosp_codes,
                 FS_MGR_MNTALL_DEV_NEEDS_METADATA_ENCRYPTION aosp_codes}"
    "6 \<in> {FS_MGR_MNTALL_DEV_FILE_ENCRYPTED aosp_codes,
                 FS_MGR_MNTALL_DEV_IS_METADATA_ENCRYPTED aosp_codes,
                 FS_MGR_MNTALL_DEV_NEEDS_METADATA_ENCRYPTION aosp_codes}"
    by (simp_all add: aosp_codes_def)
  have k: "FscryptInstallKeyring env_ok" "\<not> FscryptInstallKeyring env_failing"
    by (simp_all add: env_ok_def env_failing_def)
  show ?thesis
    using file_encrypted_installs_keyring_first [OF aosp_codes_distinct m(1), of env_failing False]
      file_encrypted_installs_keyring_first [OF aosp_codes_distinct m(2), of env_ok False]
      file_encrypted_installs_keyring_first [OF aosp_codes_distinct m(3), of env_failing True]
      aosp_codes_distinct k
    by simp
qed

section \<open>\<open>remount_userdata\<close> and the recorded outcome\<close>

lemma ex_upto_Suc:
  "(\<exists>i. 2 \<le> i \<and> i \<le> Suc m \<and> Q i) =
   ((2 \<le> Suc m \<and> Q (Suc m)) \<or> (\<exists>i. 2 \<le> i \<and> i \<le> m \<and> Q i))"
proof
  assume "\<exists>i. 2 \<le> i \<and> i \<le> Suc m \<and> Q i"
  then obtain i where i: "2 \<le> i" "i \<le> Suc m" "Q i"
    by blast
  show "(2 \<le> Suc m \<and> Q (Suc m)) \<or> (\<exists>i. 2 \<le> i \<and> i \<le> m \<and> Q i)"
  proof (cases "i = Suc m")
    case True
    with i show ?thesis by blast
  next
    case False
    with i have "i \<le> m" by simp
    with i show ?thesis by blast
  qed
next
  assume r: "(2 \<le> Suc m \<and> Q (Suc m)) \<or> (\<exists>i. 2 \<le> i \<and> i \<le> m \<and> Q i)"
  then show "\<exists>i. 2 \<le> i \<and> i \<le> Suc m \<and> Q i"
  proof
    assume "2 \<le> Suc m \<and> Q (Suc m)"
    then show ?thesis by blast
  next
    assume "\<exists>i. 2 \<le> i \<and> i \<le> m \<and> Q i"
    then obtain i where "2 \<le> i" "i \<le> m" "Q i" by blast
    then have "2 \<le> i \<and> i \<le> Suc m \<and> Q i" by simp
    then show ?thesis ..
  qed
qed

lemma mount_all_scan_queue_event:
  "queue_event (mount_all_scan args n v) =
     (queue_event v \<and> \<not> (\<exists>i. 2 \<le> i \<and> i \<le> n \<and> args ! i = ''--early''))"
proof (induction n arbitrary: v)
  case 0
  show ?case by simp
next
  case (Suc m)
  show ?case
  proof (cases "Suc m > 1")
    case True
    then have "2 \<le> Suc m" by simp
    with True show ?thesis
      by (simp add: Suc.IH ex_upto_Suc [of m "\<lambda>i. args ! i = ''--early''"] del: One_nat_def)
  next
    case False
    then have "m = 0" by simp
    then show ?thesis by simp
  qed
qed

lemma in_set_drop_nth:
  "(\<exists>i. n \<le> i \<and> i < length xs \<and> xs ! i = x) = (x \<in> set (drop n xs))"
proof
  assume "\<exists>i. n \<le> i \<and> i < length xs \<and> xs ! i = x"
  then obtain i where i: "n \<le> i" "i < length xs" "xs ! i = x"
    by blast
  then have "i - n < length (drop n xs)" and "drop n xs ! (i - n) = x"
    by simp_all
  then show "x \<in> set (drop n xs)"
    using nth_mem by blast
next
  assume "x \<in> set (drop n xs)"
  then obtain j where j: "j < length (drop n xs)" "drop n xs ! j = x"
    by (auto simp: in_set_conv_nth)
  then have "n \<le> n + j \<and> n + j < length xs \<and> xs ! (n + j) = x"
    by auto
  then show "\<exists>i. n \<le> i \<and> i < length xs \<and> xs ! i = x" ..
qed

lemma early_index:
  "(\<exists>i. 2 \<le> i \<and> i \<le> length args - 1 \<and> args ! i = ''--early'') =
   (''--early'' \<in> set (drop 2 args))"
proof -
  have e: "(2 \<le> i \<and> i \<le> length args - 1) = (2 \<le> i \<and> i < length args)" for i :: nat
    by arith
  have "(2 \<le> i \<and> i \<le> length args - 1 \<and> args ! i = ''--early'') =
        (2 \<le> i \<and> i < length args \<and> args ! i = ''--early'')" for i
    using e [of i] by blast
  then show ?thesis
    by (simp only: in_set_drop_nth)
qed

lemma remount_state_unchanged: "snd (do_remount_userdata K E s) = s"
  by (simp add: do_remount_userdata_def Let_def split: prod.split sum.split)

lemma remount_too_early:
  "initial_mount_fstab_return_code s = - 1 \<Longrightarrow>
   do_remount_userdata K E s = ((Error ''Calling remount_userdata too early'', []), s)"
  by (simp add: do_remount_userdata_def)

lemma mount_all_records:
  "initial_mount_fstab_return_code (snd (do_mount_all K E args s)) =
     (if ReadFstabFromFile E (args ! 1) \<and>
         ''--early'' \<notin> set (drop 2 args)
      then fs_mgr_mount_all E
             (mount_mode_var (mount_all_scan args (length args - 1)
                \<lparr> import_rc = True, queue_event = True, mount_mode_var = MOUNT_MODE_DEFAULT,
                  path_arg_end = length args, prop_post_fix = ''default'' \<rparr>))
      else initial_mount_fstab_return_code s)"
proof -
  define v where "v = mount_all_scan args (length args - 1)
                \<lparr> import_rc = True, queue_event = True, mount_mode_var = MOUNT_MODE_DEFAULT,
                  path_arg_end = length args, prop_post_fix = ''default'' \<rparr>"
  have qe: "queue_event v = (''--early'' \<notin> set (drop 2 args))"
    unfolding v_def mount_all_scan_queue_event early_index by simp
  have "initial_mount_fstab_return_code (snd (do_mount_all K E args s)) =
     (if ReadFstabFromFile E (args ! 1) \<and> queue_event v
      then fs_mgr_mount_all E (mount_mode_var v)
      else initial_mount_fstab_return_code s)"
    unfolding do_mount_all_def v_def [symmetric]
    by (simp add: Let_def import_late_def split: prod.split sum.split)
  then have "initial_mount_fstab_return_code (snd (do_mount_all K E args s)) =
     (if ReadFstabFromFile E (args ! 1) \<and>
         ''--early'' \<notin> set (drop 2 args)
      then fs_mgr_mount_all E (mount_mode_var v)
      else initial_mount_fstab_return_code s)"
    by (simp only: qe)
  then show ?thesis
    unfolding v_def .
qed
lemma mount_all_does_not_read:
  "fst (do_mount_all K E args (s\<lparr>initial_mount_fstab_return_code := x\<rparr>)) =
   fst (do_mount_all K E args s)"
  by (simp add: do_mount_all_def Let_def import_late_def split: prod.split sum.split)

text \<open>
  C2, as the code has it. For a \<open>remount_userdata\<close> whose recorded outcome is
  NeedsBlockEncryption and whose default fstab can be read: the command first calls
  \<open>fs_mgr_remount_userdata_into_checkpointing\<close> (the remount of userdata is attempted,
  and its failure triggers the shutdown \<open>reboot,mount-userdata-failed\<close>), then runs the
  state machine with the re-entry flag. The state machine performs no mount: it logs
  an error, fires the shutdown trigger
  \<open>reboot,requested-userdata-remount-on-fde-device\<close> once, with no property written
  before or after it, queues \<open>encrypt\<close>, and the command returns success.
\<close>

theorem remount_on_fde_device:
  assumes "initial_mount_fstab_return_code s = FS_MGR_MNTALL_DEV_NEEDS_ENCRYPTION K"
    and "FS_MGR_MNTALL_DEV_NEEDS_ENCRYPTION K \<noteq> - 1"
    and "ReadDefaultFstab E"
  shows
    "queue_fs_event K E (initial_mount_fstab_return_code s) True =
       (Inr (),
        [E_LOG_ERROR ''Userdata remount is not supported on FDE devices. How did you get here?'',
         E_TriggerShutdown ''reboot,requested-userdata-remount-on-fde-device'',
         E_QueueEventTrigger ''encrypt''])
     \<and> do_remount_userdata K E s =
       ((Inr (),
         [E_ReadDefaultFstab, E_fs_mgr_remount_userdata_into_checkpointing] @
         (if fs_mgr_remount_userdata_into_checkpointing E < 0
          then [E_TriggerShutdown ''reboot,mount-userdata-failed''] else []) @
         [E_LOG_ERROR ''Userdata remount is not supported on FDE devices. How did you get here?'',
          E_TriggerShutdown ''reboot,requested-userdata-remount-on-fde-device'',
          E_QueueEventTrigger ''encrypt'']), s)"
proof -
  have q: "queue_fs_event K E (initial_mount_fstab_return_code s) True =
       (Inr (),
        [E_LOG_ERROR ''Userdata remount is not supported on FDE devices. How did you get here?'',
         E_TriggerShutdown ''reboot,requested-userdata-remount-on-fde-device'',
         E_QueueEventTrigger ''encrypt''])"
    by (simp add: assms(1) qfe_needs_encryption fde_remount_panic_def)
  have "do_remount_userdata K E s =
       ((Inr (),
         [E_ReadDefaultFstab, E_fs_mgr_remount_userdata_into_checkpointing] @
         (if fs_mgr_remount_userdata_into_checkpointing E < 0
          then [E_TriggerShutdown ''reboot,mount-userdata-failed''] else []) @
         [E_LOG_ERROR ''Userdata remount is not supported on FDE devices. How did you get here?'',
          E_TriggerShutdown ''reboot,requested-userdata-remount-on-fde-device'',
          E_QueueEventTrigger ''encrypt'']), s)"
    using assms(2,3) unfolding do_remount_userdata_def q
    by (simp add: assms(1))
  with q show ?thesis by blast
qed

theorem remount_on_fde_device_witness:
  "do_remount_userdata aosp_codes env_ok
     \<lparr> initial_mount_fstab_return_code = 3, late_import_paths = [] \<rparr> =
     ((Inr (),
       [E_ReadDefaultFstab, E_fs_mgr_remount_userdata_into_checkpointing,
        E_LOG_ERROR ''Userdata remount is not supported on FDE devices. How did you get here?'',
        E_TriggerShutdown ''reboot,requested-userdata-remount-on-fde-device'',
        E_QueueEventTrigger ''encrypt'']),
      \<lparr> initial_mount_fstab_return_code = 3, late_import_paths = [] \<rparr>)"
proof -
  have a: "initial_mount_fstab_return_code
             \<lparr> initial_mount_fstab_return_code = 3, late_import_paths = [] \<rparr> =
           FS_MGR_MNTALL_DEV_NEEDS_ENCRYPTION aosp_codes"
    by (simp add: aosp_codes_def)
  have b: "FS_MGR_MNTALL_DEV_NEEDS_ENCRYPTION aosp_codes \<noteq> - 1"
    by (simp add: aosp_codes_def)
  have c: "ReadDefaultFstab env_ok"
    by (simp add: env_ok_def)
  have d: "\<not> fs_mgr_remount_userdata_into_checkpointing env_ok < 0"
    by (simp add: env_ok_def)
  show ?thesis
    using remount_on_fde_device [OF a b c] d by simp
qed

text \<open>
  The claim as stated fails on the command: with the recorded outcome
  NeedsBlockEncryption the remount of userdata is attempted before the state machine
  runs, and when it fails two shutdown triggers fire.
\<close>

theorem remount_on_fde_device_counterexample:
  "initial_mount_fstab_return_code \<lparr> initial_mount_fstab_return_code = 3, late_import_paths = [] \<rparr> =
     FS_MGR_MNTALL_DEV_NEEDS_ENCRYPTION aosp_codes
   \<and> snd (fst (do_remount_userdata aosp_codes env_failing
        \<lparr> initial_mount_fstab_return_code = 3, late_import_paths = [] \<rparr>)) =
       [E_ReadDefaultFstab, E_fs_mgr_remount_userdata_into_checkpointing,
        E_TriggerShutdown ''reboot,mount-userdata-failed'',
        E_LOG_ERROR ''Userdata remount is not supported on FDE devices. How did you get here?'',
        E_TriggerShutdown ''reboot,requested-userdata-remount-on-fde-device'',
        E_QueueEventTrigger ''encrypt'']
   \<and> shutdown_triggers (snd (fst (do_remount_userdata aosp_codes env_failing
        \<lparr> initial_mount_fstab_return_code = 3, late_import_paths = [] \<rparr>))) =
       [''reboot,mount-userdata-failed'', ''reboot,requested-userdata-remount-on-fde-device'']"
  by (simp add: do_remount_userdata_def queue_fs_event_def aosp_codes_def env_failing_def
      fde_remount_panic_def)

text \<open>
  C8. \<open>remount_userdata\<close> on the state of a fresh boot, or on any state whose recorded
  code is the initial \<open>-1\<close>, fails with \<open>Calling remount_userdata too early\<close> and does
  nothing else; it never changes the state. \<open>mount_all\<close> does not read the recorded
  code, and writes it exactly when the fstab was read and no \<open>--early\<close> stands among
  its options (when it queues the fs event): the new value is what
  \<open>fs_mgr_mount_all\<close> returned. No other builtin modelled here has the state as an
  argument.
\<close>

theorem recorded_outcome_single_writer:
  "do_remount_userdata K E (boot_state paths) =
     ((Error ''Calling remount_userdata too early'', []), boot_state paths)
   \<and> do_remount_userdata K E (s\<lparr>initial_mount_fstab_return_code := - 1\<rparr>) =
     ((Error ''Calling remount_userdata too early'', []), s\<lparr>initial_mount_fstab_return_code := - 1\<rparr>)
   \<and> snd (do_remount_userdata K E s) = s
   \<and> fst (do_mount_all K E args (s\<lparr>initial_mount_fstab_return_code := x\<rparr>)) =
       fst (do_mount_all K E args s)
   \<and> initial_mount_fstab_return_code (snd (do_mount_all K E args s)) =
       (if ReadFstabFromFile E (args ! 1) \<and>
           ''--early'' \<notin> set (drop 2 args)
        then fs_mgr_mount_all E
               (mount_mode_var (mount_all_scan args (length args - 1)
                  \<lparr> import_rc = True, queue_event = True, mount_mode_var = MOUNT_MODE_DEFAULT,
                    path_arg_end = length args, prop_post_fix = ''default'' \<rparr>))
        else initial_mount_fstab_return_code s)"
  by (simp add: remount_too_early remount_state_unchanged mount_all_does_not_read
      mount_all_records boot_state_def)

theorem recorded_outcome_single_writer_witness:
  "do_remount_userdata aosp_codes env_ok (boot_state []) =
     ((Error ''Calling remount_userdata too early'', []), boot_state [])
   \<and> initial_mount_fstab_return_code
       (snd (do_mount_all aosp_codes env_ok [''mount_all'', ''/vendor/etc/fstab''] (boot_state []))) = 5
   \<and> initial_mount_fstab_return_code
       (snd (do_mount_all aosp_codes env_ok [''mount_all'', ''/vendor/etc/fstab'', ''--early'']
          (boot_state []))) = - 1"
proof -
  have r: "ReadFstabFromFile env_ok ''/vendor/etc/fstab''" "fs_mgr_mount_all env_ok = (\<lambda>_. 5)"
    by (simp_all add: env_ok_def)
  have b: "initial_mount_fstab_return_code (boot_state []) = - 1"
    by (simp add: boot_state_def)
  note t1 = recorded_outcome_single_writer
    [of aosp_codes env_ok "[]" "boot_state []" "[''mount_all'', ''/vendor/etc/fstab'']" 0]
  note t2 = recorded_outcome_single_writer
    [of aosp_codes env_ok "[]" "boot_state []" "[''mount_all'', ''/vendor/etc/fstab'', ''--early'']" 0]
  have "initial_mount_fstab_return_code
       (snd (do_mount_all aosp_codes env_ok [''mount_all'', ''/vendor/etc/fstab''] (boot_state []))) = 5"
    using t1 r by simp
  moreover have "initial_mount_fstab_return_code
       (snd (do_mount_all aosp_codes env_ok [''mount_all'', ''/vendor/etc/fstab'', ''--early'']
          (boot_state []))) = - 1"
    using t2 b by simp
  ultimately show ?thesis
    using t1 by blast
qed

section \<open>Starting and restarting a class\<close>

lemma start_calls_loop:
  "start_calls (class_start_loop E cls ss) =
     map service_name (filter (\<lambda>s. cls \<in> classnames s) ss)"
  by (induction ss) (auto split: sum.split)

lemma logged_errors_loop:
  "logged_errors (class_start_loop E cls ss) =
     map (\<lambda>s. could_not_start (service_name s) cls (projl (StartIfNotDisabled E s)))
       (filter (\<lambda>s. cls \<in> classnames s \<and> isl (StartIfNotDisabled E s)) ss)"
  by (induction ss) (auto split: sum.split)

lemma restart_loop:
  "ForEachServiceInClass ss cls f = map f (filter (\<lambda>s. cls \<in> classnames s) ss)"
  by (induction ss) auto

text \<open>
  C7. \<open>class_start C\<close> always returns success. When
  \<open>persist.init.dont_start_class.C\<close> reads true it does nothing at all. Otherwise the
  services that receive \<open>StartIfNotDisabled\<close> are exactly those of the list whose class
  names contain \<open>C\<close>, in the order of the list, whatever the earlier starts answered;
  and an error is logged for exactly those of them whose start failed.
\<close>

theorem class_start_gated_and_complete:
  "fst (do_class_start E args) = Inr ()
   \<and> (GetBoolProperty E (''persist.init.dont_start_class.'' @ args ! 1) False \<longrightarrow>
        snd (do_class_start E args) = [])
   \<and> (\<not> GetBoolProperty E (''persist.init.dont_start_class.'' @ args ! 1) False \<longrightarrow>
        start_calls (snd (do_class_start E args)) =
          map service_name (filter (\<lambda>s. args ! 1 \<in> classnames s) (ServiceList E))
        \<and> logged_errors (snd (do_class_start E args)) =
          map (\<lambda>s. could_not_start (service_name s) (args ! 1) (projl (StartIfNotDisabled E s)))
            (filter (\<lambda>s. args ! 1 \<in> classnames s \<and> isl (StartIfNotDisabled E s))
               (ServiceList E)))"
  by (simp add: do_class_start_def start_calls_loop logged_errors_loop)

theorem class_start_gated_and_complete_witness:
  "do_class_start (three_services (\<lambda>k. k = ''persist.init.dont_start_class.main''))
     [''class_start'', ''main''] = (Inr (), [])
   \<and> start_calls (snd (do_class_start (three_services (\<lambda>k. False)) [''class_start'', ''main''])) =
       [''a'', ''b'', ''c'']
   \<and> logged_errors (snd (do_class_start (three_services (\<lambda>k. False)) [''class_start'', ''main''])) =
       [could_not_start ''b'' ''main'' (ResultError ''fork failed'' 0)]"
proof -
  note t1 = class_start_gated_and_complete
    [of "three_services (\<lambda>k. k = ''persist.init.dont_start_class.main'')"
        "[''class_start'', ''main'']"]
  note t2 = class_start_gated_and_complete
    [of "three_services (\<lambda>k. False)" "[''class_start'', ''main'']"]
  have "do_class_start (three_services (\<lambda>k. k = ''persist.init.dont_start_class.main''))
     [''class_start'', ''main''] = (Inr (), [])"
    using t1 by (simp add: three_services_def prod_eq_iff)
  moreover have "start_calls (snd (do_class_start (three_services (\<lambda>k. False)) [''class_start'', ''main''])) =
       [''a'', ''b'', ''c'']"
    using t2 by (simp add: three_services_def)
  moreover have "logged_errors (snd (do_class_start (three_services (\<lambda>k. False)) [''class_start'', ''main''])) =
       [could_not_start ''b'' ''main'' (ResultError ''fork failed'' 0)]"
    using t2 by (simp add: three_services_def Error_def)
  ultimately show ?thesis by blast
qed

text \<open>
  C10. \<open>class_restart C\<close> has the same gate: when
  \<open>persist.init.dont_start_class.C\<close> reads true no service is restarted and nothing
  else happens; otherwise \<open>Restart\<close> goes to the services whose class names contain
  \<open>C\<close>. Both ways the command returns success.
\<close>

theorem class_restart_gated:
  "do_class_restart E args =
     (Inr (),
      if GetBoolProperty E (''persist.init.dont_start_class.'' @ args ! 1) False then []
      else map (\<lambda>s. E_Restart (service_name s))
             (filter (\<lambda>s. args ! 1 \<in> classnames s) (ServiceList E)))"
  by (simp add: do_class_restart_def restart_loop)

theorem class_restart_gated_witness:
  "do_class_restart (three_services (\<lambda>k. k = ''persist.init.dont_start_class.main''))
     [''class_restart'', ''main''] = (Inr (), [])
   \<and> do_class_restart (three_services (\<lambda>k. False)) [''class_restart'', ''main''] =
       (Inr (), [E_Restart ''a'', E_Restart ''b'', E_Restart ''c''])"
  using class_restart_gated
    [of "three_services (\<lambda>k. k = ''persist.init.dont_start_class.main'')"
        "[''class_restart'', ''main'']"]
    class_restart_gated [of "three_services (\<lambda>k. False)" "[''class_restart'', ''main'']"]
  by (simp add: three_services_def)

section \<open>The arguments of \<open>mount\<close>\<close>

lemma wait_not_a_flag: "find_mount_flag mount_flags ''wait'' = None"
  by (simp add: mount_flags_def)

lemma loop_step:
  "na < length args \<Longrightarrow>
   mount_args_loop args na v =
     mount_args_loop args (Suc na)
       (case find_mount_flag mount_flags (args ! na) of
          Some flag \<Rightarrow> v\<lparr>mv_flags := mv_flags v OR flag\<rparr>
        | None \<Rightarrow>
            if args ! na = ''wait'' then v\<lparr>mv_wait := True\<rparr>
            else if na + 1 = length args then v\<lparr>mv_options := Some (args ! na)\<rparr>
            else v)"
  by (subst mount_args_loop.simps) simp

lemma loop_done: "\<not> na < length args \<Longrightarrow> mount_args_loop args na v = v"
  by (subst mount_args_loop.simps) simp

lemma loop_flags:
  "mv_flags (mount_args_loop args na v) = mv_flags v OR or_of_matched_flags (drop na args)"
proof (induction args na v rule: mount_args_loop.induct)
  case (1 args na v)
  show ?case
  proof (cases "na < length args")
    case True
    define v' where "v' =
       (case find_mount_flag mount_flags (args ! na) of
          Some flag \<Rightarrow> v\<lparr>mv_flags := mv_flags v OR flag\<rparr>
        | None \<Rightarrow>
            if args ! na = ''wait'' then v\<lparr>mv_wait := True\<rparr>
            else if na + 1 = length args then v\<lparr>mv_options := Some (args ! na)\<rparr>
            else v)"
    have d: "drop na args = args ! na # drop (Suc na) args"
      using True by (simp add: Cons_nth_drop_Suc)
    have step: "mount_args_loop args na v = mount_args_loop args (Suc na) v'"
      unfolding v'_def using True by (rule loop_step)
    have ih: "mv_flags (mount_args_loop args (Suc na) v') =
                mv_flags v' OR or_of_matched_flags (drop (Suc na) args)"
      unfolding v'_def using True by (rule "1.IH")
    have f: "mv_flags v' =
               mv_flags v OR (case find_mount_flag mount_flags (args ! na) of
                                Some flag \<Rightarrow> flag | None \<Rightarrow> 0)"
      unfolding v'_def by (simp split: option.split)
    show ?thesis
      unfolding step ih d f by (simp add: or.assoc)
  next
    case False
    then show ?thesis by (simp add: loop_done)
  qed
qed
lemma loop_wait:
  "mv_wait (mount_args_loop args na v) = (mv_wait v \<or> ''wait'' \<in> set (drop na args))"
proof (induction args na v rule: mount_args_loop.induct)
  case (1 args na v)
  show ?case
  proof (cases "na < length args")
    case True
    define v' where "v' =
       (case find_mount_flag mount_flags (args ! na) of
          Some flag \<Rightarrow> v\<lparr>mv_flags := mv_flags v OR flag\<rparr>
        | None \<Rightarrow>
            if args ! na = ''wait'' then v\<lparr>mv_wait := True\<rparr>
            else if na + 1 = length args then v\<lparr>mv_options := Some (args ! na)\<rparr>
            else v)"
    have d: "drop na args = args ! na # drop (Suc na) args"
      using True by (simp add: Cons_nth_drop_Suc)
    have step: "mount_args_loop args na v = mount_args_loop args (Suc na) v'"
      unfolding v'_def using True by (rule loop_step)
    have ih: "mv_wait (mount_args_loop args (Suc na) v') =
                (mv_wait v' \<or> ''wait'' \<in> set (drop (Suc na) args))"
      unfolding v'_def using True by (rule "1.IH")
    have f: "mv_wait v' = (mv_wait v \<or> args ! na = ''wait'')"
      unfolding v'_def using wait_not_a_flag by (auto split: option.split)
    show ?thesis
      unfolding step ih d f by auto
  next
    case False
    then show ?thesis by (simp add: loop_done)
  qed
qed

lemma loop_options:
  "mv_options (mount_args_loop args na v) =
     (if na < length args \<and> find_mount_flag mount_flags (last args) = None \<and>
         last args \<noteq> ''wait''
      then Some (last args) else mv_options v)"
proof (induction args na v rule: mount_args_loop.induct)
  case (1 args na v)
  show ?case
  proof (cases "na < length args")
    case True
    define v' where "v' =
       (case find_mount_flag mount_flags (args ! na) of
          Some flag \<Rightarrow> v\<lparr>mv_flags := mv_flags v OR flag\<rparr>
        | None \<Rightarrow>
            if args ! na = ''wait'' then v\<lparr>mv_wait := True\<rparr>
            else if na + 1 = length args then v\<lparr>mv_options := Some (args ! na)\<rparr>
            else v)"
    have step: "mount_args_loop args na v = mount_args_loop args (Suc na) v'"
      unfolding v'_def using True by (rule loop_step)
    have ih: "mv_options (mount_args_loop args (Suc na) v') =
                (if Suc na < length args \<and> find_mount_flag mount_flags (last args) = None \<and>
                    last args \<noteq> ''wait''
                 then Some (last args) else mv_options v')"
      unfolding v'_def using True by (rule "1.IH")
    show ?thesis
    proof (cases "Suc na < length args")
      case True
      then have "mv_options v' = mv_options v"
        unfolding v'_def by (simp split: option.split)
      then show ?thesis
        unfolding step ih using True by simp
    next
      case False
      with \<open>na < length args\<close> have e: "Suc na = length args"
        by simp
      then have "args \<noteq> []" and "na = length args - 1"
        by auto
      then have l: "last args = args ! na"
        by (simp add: last_conv_nth)
      have "mv_options v' =
              (if find_mount_flag mount_flags (last args) = None \<and> last args \<noteq> ''wait''
               then Some (last args) else mv_options v)"
        unfolding v'_def l using e by (simp split: option.split)
      then show ?thesis
        unfolding step ih using e by simp
    qed
  next
    case False
    then show ?thesis by (simp add: loop_done)
  qed
qed

lemma parse_example:
  "mv_flags (mount_parse [cmd, system, source, target, ''noatime'', ''ro'', ''rec'']) =
     MS_NOATIME OR MS_RDONLY OR MS_REC"
  by (simp add: mount_parse_def loop_flags mount_flags_def)
lemma parse_eq:
  "mount_parse args =
     \<lparr> mv_options =
         (if 4 < length args \<and> find_mount_flag mount_flags (last args) = None \<and>
             last args \<noteq> ''wait''
          then Some (last args) else None),
       mv_flags = or_of_matched_flags (drop 4 args),
       mv_wait = (''wait'' \<in> set (drop 4 args)) \<rparr>"
  by (rule mount_vars.equality) (simp_all add: mount_parse_def loop_flags loop_wait loop_options)

lemma or_of_matched_flags_append:
  "or_of_matched_flags (xs @ ys) = or_of_matched_flags xs OR or_of_matched_flags ys"
  by (induction xs) (simp_all add: or.assoc)

lemma parse_final_unmatched:
  assumes "4 \<le> length pre" and "find_mount_flag mount_flags a = None" and "a \<noteq> ''wait''"
  shows "mount_parse (pre @ [a]) = (mount_parse pre)\<lparr>mv_options := Some a\<rparr>"
  using assms by (simp add: parse_eq or_of_matched_flags_append)

lemma parse_nonfinal_unmatched:
  assumes "4 \<le> length pre" and "find_mount_flag mount_flags a = None" and "a \<noteq> ''wait''"
    and "post \<noteq> []"
  shows "mount_parse (pre @ a # post) = mount_parse (pre @ post)"
proof -
  from assms(4) have "0 < length post"
    by simp
  with assms(1) have "4 < length pre + length post"
    by linarith
  with assms show ?thesis
    by (simp add: parse_eq or_of_matched_flags_append)
qed

lemma do_mount_nonfinal_unmatched:
  assumes "4 \<le> length pre" and "find_mount_flag mount_flags a = None" and "a \<noteq> ''wait''"
    and "post \<noteq> []"
  shows "do_mount M fuel (pre @ a # post) = do_mount M fuel (pre @ post)"
proof -
  have "(pre @ a # post) ! 1 = (pre @ post) ! 1" "(pre @ a # post) ! 2 = (pre @ post) ! 2"
    "(pre @ a # post) ! 3 = (pre @ post) ! 3"
    using assms(1) by (simp_all add: nth_append)
  then show ?thesis
    unfolding do_mount_def parse_nonfinal_unmatched [OF assms] by simp
qed

text \<open>
  C3, as the code has it. An argument after the (type, source, target) triple that
  matches no entry of the flag table and is not \<open>wait\<close> becomes the option string,
  verbatim, when it is the last argument; when it is not the last one it is ignored:
  the command does what it does without that argument, and there is no error for it.
  The flags of the matched arguments are combined by bitwise OR, so
  \<open>noatime ro rec\<close> gives \<open>MS_NOATIME | MS_RDONLY | MS_REC\<close>.
\<close>

theorem mount_unmatched_arguments:
  assumes "4 \<le> length pre" and "find_mount_flag mount_flags a = None" and "a \<noteq> ''wait''"
  shows "mount_parse (pre @ [a]) = (mount_parse pre)\<lparr>mv_options := Some a\<rparr>
     \<and> (post \<noteq> [] \<longrightarrow> mount_parse (pre @ a # post) = mount_parse (pre @ post))
     \<and> (post \<noteq> [] \<longrightarrow> do_mount M fuel (pre @ a # post) = do_mount M fuel (pre @ post))
     \<and> mv_flags (mount_parse args) = or_of_matched_flags (drop 4 args)
     \<and> mv_flags (mount_parse [cmd, system, source, target, ''noatime'', ''ro'', ''rec'']) =
         MS_NOATIME OR MS_RDONLY OR MS_REC"
proof -
  have "mv_flags (mount_parse [cmd, system, source, target, ''noatime'', ''ro'', ''rec'']) =
         MS_NOATIME OR MS_RDONLY OR MS_REC"
    by (simp add: parse_eq mount_flags_def)
  moreover have "mv_flags (mount_parse args) = or_of_matched_flags (drop 4 args)"
    by (simp add: parse_eq)
  ultimately show ?thesis
    using parse_final_unmatched [OF assms] parse_nonfinal_unmatched [OF assms]
      do_mount_nonfinal_unmatched [OF assms]
    by blast
qed

lemma bogus_unmatched: "find_mount_flag mount_flags ''bogus'' = None"
  by (simp add: mount_flags_def)

theorem mount_unmatched_arguments_witness:
  "mount_parse [''mount'', ''ext4'', ''/dev/block/sda1'', ''/mnt'', ''ro'', ''bogus''] =
     \<lparr> mv_options = Some ''bogus'', mv_flags = MS_RDONLY, mv_wait = False \<rparr>
   \<and> mount_parse [''mount'', ''ext4'', ''/dev/block/sda1'', ''/mnt'', ''bogus'', ''ro''] =
     \<lparr> mv_options = None, mv_flags = MS_RDONLY, mv_wait = False \<rparr>"
proof -
  have p: "mount_parse [''mount'', ''ext4'', ''/dev/block/sda1'', ''/mnt'', ''ro''] =
     \<lparr> mv_options = None, mv_flags = MS_RDONLY, mv_wait = False \<rparr>"
    by (simp add: parse_eq mount_flags_def)
  have l: "4 \<le> length [''mount'', ''ext4'', ''/dev/block/sda1'', ''/mnt'', ''ro'']"
    "4 \<le> length [''mount'', ''ext4'', ''/dev/block/sda1'', ''/mnt'']"
    by simp_all
  have w: "''bogus'' \<noteq> ''wait''"
    by simp
  show ?thesis
    using mount_unmatched_arguments [OF l(1) bogus_unmatched w, of "[''ro'']"]
      mount_unmatched_arguments [OF l(2) bogus_unmatched w, of "[''ro'']"] p
    by simp
qed

text \<open>
  The claim as stated fails: with an unmatched argument before the last one the
  command is no error; the mount is made, without the argument.
\<close>

theorem mount_unmatched_arguments_counterexample:
  "find_mount_flag mount_flags ''bogus'' = None
   \<and> do_mount (test_kernel {} {} (Ok ()) 2) 0
       [''mount'', ''ext4'', ''/dev/block/sda1'', ''/mnt'', ''bogus'', ''ro''] =
     (Some (Inr ()), [E_mount ''/dev/block/sda1'' ''/mnt'' ''ext4'' MS_RDONLY None])"
  by (simp add: do_mount_def parse_eq mount_flags_def test_kernel_def)

text \<open>
  C6. For a source that does not start with \<open>loop@\<close>, when the \<open>mount\<close> call fails
  with \<open>errno\<close> \<open>e\<close>: the command returns the empty success if \<open>e\<close> is \<open>ENOENT\<close> and
  the minimum log severity is above \<open>DEBUG\<close>; in every other case it returns the error
  \<open>mount() failed: <strerror(e)>\<close> with the code \<open>e\<close>.
\<close>

theorem direct_mount_error_policy:
  assumes "take 5 (args ! 2) \<noteq> ''loop@''"
    and "sys_mount M (args ! 2) (args ! 3) (args ! 1) (mv_flags (mount_parse args))
           (mv_options (mount_parse args)) = Fail e"
  shows "fst (do_mount M fuel args) =
     Some (if e = ENOENT \<and> GetMinimumLogSeverity M > log_DEBUG M then Inr ()
           else Inl (ResultError (''mount() failed: '' @ strerror M e) e))"
  using assms by (simp add: do_mount_def Let_def ErrnoErrorIgnoreEnoent_def ErrnoError_def)

theorem direct_mount_error_policy_witness:
  "fst (do_mount (test_kernel {} {} (Fail ENOENT) 2) 0 [''mount'', ''ext4'', ''/dev/block/sda1'', ''/mnt'']) =
     Some (Inr ())
   \<and> fst (do_mount (test_kernel {} {} (Fail ENOENT) 1) 0 [''mount'', ''ext4'', ''/dev/block/sda1'', ''/mnt'']) =
     Some (Inl (ResultError ''mount() failed: No such file or directory'' 2))
   \<and> fst (do_mount (test_kernel {} {} (Fail 13) 2) 0 [''mount'', ''ext4'', ''/dev/block/sda1'', ''/mnt'']) =
     Some (Inl (ResultError ''mount() failed: error'' 13))"
proof -
  have s: "take 5 ([''mount'', ''ext4'', ''/dev/block/sda1'', ''/mnt''] ! 2) \<noteq> ''loop@''"
    by simp
  have m: "sys_mount (test_kernel {} {} r sev) a b c d e = r" for r sev a b c d e
    by (simp add: test_kernel_def)
  have v: "GetMinimumLogSeverity (test_kernel {} {} r sev) = sev" "log_DEBUG (test_kernel {} {} r sev) = 1"
    "strerror (test_kernel {} {} r sev) = (\<lambda>e. if e = ENOENT then ''No such file or directory'' else ''error'')"
    for r sev
    by (simp_all add: test_kernel_def)
  note t = direct_mount_error_policy
    [where args = "[''mount'', ''ext4'', ''/dev/block/sda1'', ''/mnt'']" and fuel = 0, OF s]
  show ?thesis
    using t [where M = "test_kernel {} {} (Fail ENOENT) 2" and e = ENOENT, OF m]
      t [where M = "test_kernel {} {} (Fail ENOENT) 1" and e = ENOENT, OF m]
      t [where M = "test_kernel {} {} (Fail 13) 2" and e = 13, OF m]
    by (simp add: v ENOENT_def)
qed

section \<open>Mounting through a loop device\<close>

lemma do_mount_loop:
  assumes "args ! 2 = ''loop@'' @ backing"
    and "sys_open M backing (loop_mode (mv_flags (mount_parse args)) OR O_CLOEXEC) = Ok ()"
  shows "do_mount M fuel args =
     (fst (loop_scan M fuel 0 (loop_mode (mv_flags (mount_parse args))) backing (args ! 3)
             (args ! 1) (mv_flags (mount_parse args)) (mv_options (mount_parse args))),
      E_open backing (loop_mode (mv_flags (mount_parse args)) OR O_CLOEXEC) #
      snd (loop_scan M fuel 0 (loop_mode (mv_flags (mount_parse args))) backing (args ! 3)
             (args ! 1) (mv_flags (mount_parse args)) (mv_options (mount_parse args))))"
  using assms by (simp add: do_mount_def Let_def split: prod.split)

lemma do_mount_loop_events:
  assumes "args ! 2 = ''loop@'' @ backing"
  shows "set (snd (do_mount M fuel args)) \<subseteq>
     insert (E_open backing (loop_mode (mv_flags (mount_parse args)) OR O_CLOEXEC))
       (set (snd (loop_scan M fuel 0 (loop_mode (mv_flags (mount_parse args))) backing (args ! 3)
             (args ! 1) (mv_flags (mount_parse args)) (mv_options (mount_parse args)))))"
  using assms by (auto simp: do_mount_def Let_def split: prod.splits sys.splits)

lemma scan_busy:
  assumes "sys_open M (loop_device n) (mode OR O_CLOEXEC) = Ok ()"
    and "ioctl_LOOP_GET_STATUS M (loop_device n) \<noteq> Fail ENXIO"
  shows "loop_scan M (Suc fuel) n mode backing target system flags opts =
     (fst (loop_scan M fuel (Suc n) mode backing target system flags opts),
      [E_open (loop_device n) (mode OR O_CLOEXEC), E_ioctl_LOOP_GET_STATUS (loop_device n)] @
      snd (loop_scan M fuel (Suc n) mode backing target system flags opts))"
  using assms by (simp add: Let_def split: prod.split)

lemma scan_skip:
  assumes "\<forall>i. n \<le> i \<and> i < n + k \<longrightarrow>
             sys_open M (loop_device i) (mode OR O_CLOEXEC) = Ok () \<and>
             ioctl_LOOP_GET_STATUS M (loop_device i) \<noteq> Fail ENXIO"
  shows "loop_scan M (k + fuel) n mode backing target system flags opts =
     (fst (loop_scan M fuel (n + k) mode backing target system flags opts),
      concat (map (\<lambda>i. [E_open (loop_device i) (mode OR O_CLOEXEC),
                         E_ioctl_LOOP_GET_STATUS (loop_device i)]) [n ..< n + k]) @
      snd (loop_scan M fuel (n + k) mode backing target system flags opts))"
  using assms
proof (induction k arbitrary: n)
  case 0
  show ?case by simp
next
  case (Suc k)
  have here: "sys_open M (loop_device n) (mode OR O_CLOEXEC) = Ok ()"
    "ioctl_LOOP_GET_STATUS M (loop_device n) \<noteq> Fail ENXIO"
    using Suc.prems by simp_all
  have rest: "\<forall>i. Suc n \<le> i \<and> i < Suc n + k \<longrightarrow>
             sys_open M (loop_device i) (mode OR O_CLOEXEC) = Ok () \<and>
             ioctl_LOOP_GET_STATUS M (loop_device i) \<noteq> Fail ENXIO"
    using Suc.prems by simp
  have u: "[n ..< n + Suc k] = n # [Suc n ..< Suc n + k]"
    by (simp add: upt_conv_Cons)
  have "loop_scan M (Suc k + fuel) n mode backing target system flags opts =
        loop_scan M (Suc (k + fuel)) n mode backing target system flags opts"
    by simp
  also have "\<dots> =
     (fst (loop_scan M (k + fuel) (Suc n) mode backing target system flags opts),
      [E_open (loop_device n) (mode OR O_CLOEXEC), E_ioctl_LOOP_GET_STATUS (loop_device n)] @
      snd (loop_scan M (k + fuel) (Suc n) mode backing target system flags opts))"
    by (rule scan_busy [OF here])
  finally show ?case
    unfolding Suc.IH [OF rest] u by simp
qed

lemma scan_bind_ok:
  assumes "sys_open M (loop_device n) (mode OR O_CLOEXEC) = Ok ()"
    and "ioctl_LOOP_GET_STATUS M (loop_device n) = Fail ENXIO"
    and "ioctl_LOOP_SET_FD M (loop_device n) backing = Ok ()"
  shows "loop_scan M (Suc fuel) n mode backing target system flags opts =
     (Some (case sys_mount M (loop_device n) target system flags opts of
              Ok u \<Rightarrow> Inr ()
            | Fail e \<Rightarrow>
                ErrnoError (strerror M)
                  (case ioctl_LOOP_CLR_FD M (loop_device n) of Fail e' \<Rightarrow> e' | Ok u \<Rightarrow> e)
                  ''mount() failed''),
      [E_open (loop_device n) (mode OR O_CLOEXEC), E_ioctl_LOOP_GET_STATUS (loop_device n),
       E_ioctl_LOOP_SET_FD (loop_device n) backing,
       E_mount (loop_device n) target system flags opts] @
      (case sys_mount M (loop_device n) target system flags opts of
         Ok u \<Rightarrow> [] | Fail e \<Rightarrow> [E_ioctl_LOOP_CLR_FD (loop_device n)]))"
  using assms by (simp add: Let_def split: sys.split)

lemma scan_bind_failed:
  assumes "sys_open M (loop_device n) (mode OR O_CLOEXEC) = Ok ()"
    and "ioctl_LOOP_GET_STATUS M (loop_device n) = Fail ENXIO"
    and "ioctl_LOOP_SET_FD M (loop_device n) backing \<noteq> Ok ()"
  shows "loop_scan M (Suc fuel) n mode backing target system flags opts =
     (fst (loop_scan M fuel (Suc n) mode backing target system flags opts),
      [E_open (loop_device n) (mode OR O_CLOEXEC), E_ioctl_LOOP_GET_STATUS (loop_device n),
       E_ioctl_LOOP_SET_FD (loop_device n) backing] @
      snd (loop_scan M fuel (Suc n) mode backing target system flags opts))"
  using assms by (simp add: Let_def split: sys.split prod.split)

lemma scan_mount_after_bind:
  "E_mount src tg sy fl op \<in> set (snd (loop_scan M fuel n mode backing target system flags opts))
   \<Longrightarrow> ioctl_LOOP_GET_STATUS M src = Fail ENXIO \<and> ioctl_LOOP_SET_FD M src backing = Ok ()"
proof (induction fuel arbitrary: n)
  case 0
  then show ?case by simp
next
  case (Suc fuel)
  show ?case
  proof (cases "sys_open M (loop_device n) (mode OR O_CLOEXEC)")
    case (Fail e)
    with Suc.prems show ?thesis by (simp add: Let_def)
  next
    case (Ok u)
    then have o: "sys_open M (loop_device n) (mode OR O_CLOEXEC) = Ok ()"
      by simp
    show ?thesis
    proof (cases "ioctl_LOOP_GET_STATUS M (loop_device n) = Fail ENXIO")
      case False
      from Suc.prems show ?thesis
        unfolding scan_busy [OF o False] using Suc.IH [of "Suc n"] by auto
    next
      case True
      note unbound = True
      show ?thesis
      proof (cases "ioctl_LOOP_SET_FD M (loop_device n) backing = Ok ()")
        case True
        from Suc.prems show ?thesis
          unfolding scan_bind_ok [OF o unbound True] using unbound True
          by (auto split: sys.splits)
      next
        case False
        from Suc.prems show ?thesis
          unfolding scan_bind_failed [OF o unbound False] using Suc.IH [of "Suc n"] by auto
      qed
    qed
  qed
qed
lemma loop_device_2: "loop_device 2 = ''/dev/block/loop2''"
  by (simp add: loop_device_def dec_digits.simps digit_char_def)

lemma loop_device_1: "loop_device (Suc 0) = ''/dev/block/loop1''"
  by (simp add: loop_device_def dec_digits.simps digit_char_def)

lemma loop_device_0: "loop_device 0 = ''/dev/block/loop0''"
  by (simp add: loop_device_def dec_digits.simps digit_char_def)

lemma loop_device_3: "loop_device 3 = ''/dev/block/loop3''"
  by (simp add: loop_device_def dec_digits.simps digit_char_def)

text \<open>
  C4. For a source \<open>loop@<path>\<close> whose backing file opens: when the devices
  \<open>/dev/block/loop0\<close> to \<open>loop(n-1)\<close> open and their status query does not fail with
  \<open>ENXIO\<close>, and \<open>loop n\<close> opens and its status query fails with \<open>ENXIO\<close>, the scan
  opens and queries the devices in order and issues \<open>LOOP_SET_FD\<close> on \<open>loop n\<close>, the
  first unbound device, and on none before it. If that bind succeeds the mount on
  \<open>loop n\<close> follows it directly, the command returns (\<open>n + 1\<close> devices tried are
  enough) and its result is the mount's. If the bind fails no mount on \<open>loop n\<close> is
  attempted, however long the scan goes on. On every run, a mount is attempted only on
  a device whose status query failed with \<open>ENXIO\<close> and whose bind succeeded.
\<close>

theorem loop_mount_first_unbound:
  assumes "args ! 2 = ''loop@'' @ backing"
    and "flags = mv_flags (mount_parse args)"
    and "opts = mv_options (mount_parse args)"
    and "fl = loop_mode flags OR O_CLOEXEC"
    and "sys_open M backing fl = Ok ()"
    and "\<forall>i<n. sys_open M (loop_device i) fl = Ok () \<and>
               ioctl_LOOP_GET_STATUS M (loop_device i) \<noteq> Fail ENXIO"
    and "sys_open M (loop_device n) fl = Ok ()"
    and "ioctl_LOOP_GET_STATUS M (loop_device n) = Fail ENXIO"
  shows
    "(ioctl_LOOP_SET_FD M (loop_device n) backing = Ok () \<longrightarrow>
        do_mount M (Suc n + fuel) args =
          (Some (case sys_mount M (loop_device n) (args ! 3) (args ! 1) flags opts of
                   Ok u \<Rightarrow> Inr ()
                 | Fail e \<Rightarrow>
                     ErrnoError (strerror M)
                       (case ioctl_LOOP_CLR_FD M (loop_device n) of Fail e' \<Rightarrow> e' | Ok u \<Rightarrow> e)
                       ''mount() failed''),
           E_open backing fl #
           concat (map (\<lambda>i. [E_open (loop_device i) fl, E_ioctl_LOOP_GET_STATUS (loop_device i)])
                     [0 ..< n]) @
           [E_open (loop_device n) fl, E_ioctl_LOOP_GET_STATUS (loop_device n),
            E_ioctl_LOOP_SET_FD (loop_device n) backing,
            E_mount (loop_device n) (args ! 3) (args ! 1) flags opts] @
           (case sys_mount M (loop_device n) (args ! 3) (args ! 1) flags opts of
              Ok u \<Rightarrow> [] | Fail e \<Rightarrow> [E_ioctl_LOOP_CLR_FD (loop_device n)])))
     \<and> (ioctl_LOOP_SET_FD M (loop_device n) backing \<noteq> Ok () \<longrightarrow>
        snd (do_mount M (Suc n + fuel) args) =
          E_open backing fl #
          concat (map (\<lambda>i. [E_open (loop_device i) fl, E_ioctl_LOOP_GET_STATUS (loop_device i)])
                    [0 ..< n]) @
          [E_open (loop_device n) fl, E_ioctl_LOOP_GET_STATUS (loop_device n),
           E_ioctl_LOOP_SET_FD (loop_device n) backing] @
          snd (loop_scan M fuel (Suc n) (loop_mode flags) backing (args ! 3) (args ! 1) flags opts)
        \<and> (\<forall>k tg sy f op. E_mount (loop_device n) tg sy f op \<notin> set (snd (do_mount M k args))))
     \<and> (\<forall>k src tg sy f op. E_mount src tg sy f op \<in> set (snd (do_mount M k args)) \<longrightarrow>
          ioctl_LOOP_GET_STATUS M src = Fail ENXIO \<and> ioctl_LOOP_SET_FD M src backing = Ok ())"
proof -
  note src = assms(1)
  have bo: "sys_open M backing (loop_mode (mv_flags (mount_parse args)) OR O_CLOEXEC) = Ok ()"
    using assms(2,4,5) by simp
  have busy: "\<forall>i. 0 \<le> i \<and> i < 0 + n \<longrightarrow>
             sys_open M (loop_device i) (loop_mode flags OR O_CLOEXEC) = Ok () \<and>
             ioctl_LOOP_GET_STATUS M (loop_device i) \<noteq> Fail ENXIO"
    using assms(4,6) by simp
  have o: "sys_open M (loop_device n) (loop_mode flags OR O_CLOEXEC) = Ok ()"
    using assms(4,7) by simp
  note unbound = assms(8)
  have dm: "do_mount M k args =
     (fst (loop_scan M k 0 (loop_mode flags) backing (args ! 3) (args ! 1) flags opts),
      E_open backing fl #
      snd (loop_scan M k 0 (loop_mode flags) backing (args ! 3) (args ! 1) flags opts))" for k
    using do_mount_loop [OF src bo, of k] assms(2,3,4) by simp
  have skip: "loop_scan M (Suc n + fuel) 0 (loop_mode flags) backing (args ! 3) (args ! 1) flags opts =
     (fst (loop_scan M (Suc fuel) n (loop_mode flags) backing (args ! 3) (args ! 1) flags opts),
      concat (map (\<lambda>i. [E_open (loop_device i) fl, E_ioctl_LOOP_GET_STATUS (loop_device i)])
                [0 ..< n]) @
      snd (loop_scan M (Suc fuel) n (loop_mode flags) backing (args ! 3) (args ! 1) flags opts))"
    using scan_skip [OF busy, of "Suc fuel" backing "args ! 3" "args ! 1" flags opts] assms(4)
    by (simp add: add.commute)
  have sound: "ioctl_LOOP_GET_STATUS M s = Fail ENXIO \<and> ioctl_LOOP_SET_FD M s backing = Ok ()"
    if "E_mount s tg sy f op \<in> set (snd (do_mount M k args))" for k s tg sy f op
  proof -
    from that have "E_mount s tg sy f op \<in>
        set (snd (loop_scan M k 0 (loop_mode flags) backing (args ! 3) (args ! 1) flags opts))"
      unfolding dm by simp
    then show ?thesis
      by (rule scan_mount_after_bind)
  qed
  have ok: "do_mount M (Suc n + fuel) args =
          (Some (case sys_mount M (loop_device n) (args ! 3) (args ! 1) flags opts of
                   Ok u \<Rightarrow> Inr ()
                 | Fail e \<Rightarrow>
                     ErrnoError (strerror M)
                       (case ioctl_LOOP_CLR_FD M (loop_device n) of Fail e' \<Rightarrow> e' | Ok u \<Rightarrow> e)
                       ''mount() failed''),
           E_open backing fl #
           concat (map (\<lambda>i. [E_open (loop_device i) fl, E_ioctl_LOOP_GET_STATUS (loop_device i)])
                     [0 ..< n]) @
           [E_open (loop_device n) fl, E_ioctl_LOOP_GET_STATUS (loop_device n),
            E_ioctl_LOOP_SET_FD (loop_device n) backing,
            E_mount (loop_device n) (args ! 3) (args ! 1) flags opts] @
           (case sys_mount M (loop_device n) (args ! 3) (args ! 1) flags opts of
              Ok u \<Rightarrow> [] | Fail e \<Rightarrow> [E_ioctl_LOOP_CLR_FD (loop_device n)]))"
    if b: "ioctl_LOOP_SET_FD M (loop_device n) backing = Ok ()"
    unfolding dm skip scan_bind_ok [OF o unbound b] using assms(4) by simp
  have failed: "snd (do_mount M (Suc n + fuel) args) =
          E_open backing fl #
          concat (map (\<lambda>i. [E_open (loop_device i) fl, E_ioctl_LOOP_GET_STATUS (loop_device i)])
                    [0 ..< n]) @
          [E_open (loop_device n) fl, E_ioctl_LOOP_GET_STATUS (loop_device n),
           E_ioctl_LOOP_SET_FD (loop_device n) backing] @
          snd (loop_scan M fuel (Suc n) (loop_mode flags) backing (args ! 3) (args ! 1) flags opts)"
    if b: "ioctl_LOOP_SET_FD M (loop_device n) backing \<noteq> Ok ()"
    unfolding dm skip scan_bind_failed [OF o unbound b] using assms(4) by simp
  have never: "E_mount (loop_device n) tg sy f op \<notin> set (snd (do_mount M k args))"
    if b: "ioctl_LOOP_SET_FD M (loop_device n) backing \<noteq> Ok ()" for k tg sy f op
    using sound [of "loop_device n" tg sy f op k] b by blast
  show ?thesis
    using ok failed never sound by blast
qed
theorem loop_mount_first_unbound_witness:
  "do_mount (test_kernel {''/dev/block/loop0'', ''/dev/block/loop1''} {} (Ok ()) 2) 3
     [''mount'', ''ext4'', ''loop@/system/img'', ''/mnt'', ''ro''] =
     (Some (Inr ()),
      [E_open ''/system/img'' (O_RDONLY OR O_CLOEXEC),
       E_open ''/dev/block/loop0'' (O_RDONLY OR O_CLOEXEC),
       E_ioctl_LOOP_GET_STATUS ''/dev/block/loop0'',
       E_open ''/dev/block/loop1'' (O_RDONLY OR O_CLOEXEC),
       E_ioctl_LOOP_GET_STATUS ''/dev/block/loop1'',
       E_open ''/dev/block/loop2'' (O_RDONLY OR O_CLOEXEC),
       E_ioctl_LOOP_GET_STATUS ''/dev/block/loop2'',
       E_ioctl_LOOP_SET_FD ''/dev/block/loop2'' ''/system/img'',
       E_mount ''/dev/block/loop2'' ''/mnt'' ''ext4'' MS_RDONLY None])
   \<and> E_mount ''/dev/block/loop2'' ''/mnt'' ''ext4'' MS_RDONLY None \<notin>
       set (snd (do_mount
         (test_kernel {''/dev/block/loop0'', ''/dev/block/loop1''} {''/dev/block/loop2''} (Ok ()) 2)
         4 [''mount'', ''ext4'', ''loop@/system/img'', ''/mnt'', ''ro'']))"
proof -
  define args where "args = [''mount'', ''ext4'', ''loop@/system/img'', ''/mnt'', ''ro'']"
  define bound where "bound = {''/dev/block/loop0'', ''/dev/block/loop1''}"
  have p: "mount_parse args = \<lparr> mv_options = None, mv_flags = MS_RDONLY, mv_wait = False \<rparr>"
    by (simp add: args_def parse_eq mount_flags_def)
  have a1: "args ! 2 = ''loop@'' @ ''/system/img''"
    by (simp add: args_def)
  have a2: "MS_RDONLY = mv_flags (mount_parse args)"
    by (simp add: p)
  have a3: "None = mv_options (mount_parse args)"
    by (simp add: p)
  have a4: "O_RDONLY OR O_CLOEXEC = loop_mode MS_RDONLY OR O_CLOEXEC"
    by (simp add: loop_mode_def MS_RDONLY_def)
  have a5: "sys_open (test_kernel bound ub (Ok ()) 2) ''/system/img'' (O_RDONLY OR O_CLOEXEC) = Ok ()"
    for ub
    by (simp add: test_kernel_def)
  have a6: "\<forall>i<2. sys_open (test_kernel bound ub (Ok ()) 2) (loop_device i) (O_RDONLY OR O_CLOEXEC) = Ok () \<and>
               ioctl_LOOP_GET_STATUS (test_kernel bound ub (Ok ()) 2) (loop_device i) \<noteq> Fail ENXIO"
    for ub
  proof (intro allI impI)
    fix i :: nat
    assume "i < 2"
    then consider "i = 0" | "i = Suc 0"
      by linarith
    then show "sys_open (test_kernel bound ub (Ok ()) 2) (loop_device i) (O_RDONLY OR O_CLOEXEC) = Ok () \<and>
               ioctl_LOOP_GET_STATUS (test_kernel bound ub (Ok ()) 2) (loop_device i) \<noteq> Fail ENXIO"
      by cases (simp_all add: test_kernel_def bound_def loop_device_0 loop_device_1)
  qed
  have a7: "sys_open (test_kernel bound ub (Ok ()) 2) (loop_device 2) (O_RDONLY OR O_CLOEXEC) = Ok ()"
    for ub
    by (simp add: test_kernel_def)
  have a8: "ioctl_LOOP_GET_STATUS (test_kernel bound ub (Ok ()) 2) (loop_device 2) = Fail ENXIO"
    for ub
    by (simp add: test_kernel_def bound_def loop_device_2)
  have b1: "ioctl_LOOP_SET_FD (test_kernel bound {} (Ok ()) 2) (loop_device 2) ''/system/img'' = Ok ()"
    by (simp add: test_kernel_def)
  have b2: "ioctl_LOOP_SET_FD (test_kernel bound {''/dev/block/loop2''} (Ok ()) 2) (loop_device 2)
              ''/system/img'' \<noteq> Ok ()"
    by (simp add: test_kernel_def loop_device_2)
  have m: "sys_mount (test_kernel bound ub (Ok ()) 2) src tg sy f op = Ok ()" for ub src tg sy f op
    by (simp add: test_kernel_def)
  have u: "[0 ..< 2] = [0, Suc 0]"
    by (simp add: numeral_2_eq_2)
  note t1 = loop_mount_first_unbound [OF a1 a2 a3 a4 a5 a6 a7 a8, where fuel = 0 and ub1 = "{}"]
  note t2 = loop_mount_first_unbound
    [OF a1 a2 a3 a4 a5 a6 a7 a8, where fuel = 0 and ub1 = "{''/dev/block/loop2''}"]
  have "do_mount (test_kernel bound {} (Ok ()) 2) 3 args =
     (Some (Inr ()),
      [E_open ''/system/img'' (O_RDONLY OR O_CLOEXEC),
       E_open ''/dev/block/loop0'' (O_RDONLY OR O_CLOEXEC),
       E_ioctl_LOOP_GET_STATUS ''/dev/block/loop0'',
       E_open ''/dev/block/loop1'' (O_RDONLY OR O_CLOEXEC),
       E_ioctl_LOOP_GET_STATUS ''/dev/block/loop1'',
       E_open ''/dev/block/loop2'' (O_RDONLY OR O_CLOEXEC),
       E_ioctl_LOOP_GET_STATUS ''/dev/block/loop2'',
       E_ioctl_LOOP_SET_FD ''/dev/block/loop2'' ''/system/img'',
       E_mount ''/dev/block/loop2'' ''/mnt'' ''ext4'' MS_RDONLY None])"
    using t1 b1 by (simp add: m u loop_device_0 loop_device_1 loop_device_2 args_def)
  moreover have "E_mount ''/dev/block/loop2'' ''/mnt'' ''ext4'' MS_RDONLY None \<notin>
       set (snd (do_mount (test_kernel bound {''/dev/block/loop2''} (Ok ()) 2) 4 args))"
    using t2 b2 by (simp add: loop_device_2)
  ultimately show ?thesis
    unfolding args_def bound_def by blast
qed
end
